theory Spec2Isabelle
  imports Main
begin

section \<open>Bulk selection atom (src/unnamed/part_000)\<close>

text \<open>
  The write function of \<^verbatim>\<open>setSelectedBulkItemAtom\<close> replaces the selected-items list
  \<open>prev\<close> by \<^verbatim>\<open>prev.filter((item) => item !== update)\<close> when \<^verbatim>\<open>prev.includes(update)\<close>,
  and by \<^verbatim>\<open>[...prev, update]\<close> otherwise. Items are strings.
\<close>

definition setSelectedBulkItemAtom :: "string \<Rightarrow> string list \<Rightarrow> string list" where
  "setSelectedBulkItemAtom update prev =
     (if List.member prev update then filter (\<lambda>item. item \<noteq> update) prev
      else prev @ [update])"

section \<open>Geolocation lookup (geolocate)\<close>

text \<open>
  A parsed JSON value. The payload of a number is left as a type parameter: the function
  only passes it on.
\<close>

datatype 'n json =
    JNull
  | JBool bool
  | JNum 'n
  | JStr string
  | JArr "'n json list"
  | JObj "(string \<times> 'n json) list"

datatype error =
    FetchFailed
  | TypeError
  | CannotFindTeamMember
  | RecordNotFound
  | RelatedRecordNotFound
  | UniqueConstraintFailed

text \<open>
  \<^verbatim>\<open>response[0]\<close>: reading index 0 of \<^verbatim>\<open>null\<close> throws a TypeError; an empty array, a
  number, a boolean and an empty string have no such property (\<open>None\<close> is \<^verbatim>\<open>undefined\<close>).
\<close>

fun js_index0 :: "'n json \<Rightarrow> error + 'n json option" where
  "js_index0 JNull = Inl TypeError"
| "js_index0 (JArr []) = Inr None"
| "js_index0 (JArr (x # xs)) = Inr (Some x)"
| "js_index0 (JObj kvs) = Inr (map_of kvs ''0'')"
| "js_index0 (JStr []) = Inr None"
| "js_index0 (JStr (c # cs)) = Inr (Some (JStr [c]))"
| "js_index0 (JBool b) = Inr None"
| "js_index0 (JNum n) = Inr None"

text \<open>
  \<^verbatim>\<open>v.lat\<close> and \<^verbatim>\<open>v.lon\<close>: reading a property of \<^verbatim>\<open>undefined\<close> or \<^verbatim>\<open>null\<close> throws a
  TypeError; an object gives the member or \<^verbatim>\<open>undefined\<close>; arrays, strings, numbers and
  booleans have no property of these names.
\<close>

fun js_prop :: "'n json option \<Rightarrow> string \<Rightarrow> error + 'n json option" where
  "js_prop None k = Inl TypeError"
| "js_prop (Some JNull) k = Inl TypeError"
| "js_prop (Some (JObj kvs)) k = Inr (map_of kvs k)"
| "js_prop (Some (JArr xs)) k = Inr None"
| "js_prop (Some (JStr s)) k = Inr None"
| "js_prop (Some (JBool b)) k = Inr None"
| "js_prop (Some (JNum n)) k = Inr None"

record 'n mapData =
  lat :: "'n json option"
  lon :: "'n json option"

definition geocodeUrl :: "string \<Rightarrow> string" where
  "geocodeUrl address = ''https://geocode.maps.co/search?q='' @ address"

text \<open>
  \<open>fetchJson\<close> stands for \<^verbatim>\<open>fetch(url)\<close> followed by \<^verbatim>\<open>request.json()\<close>: the parsed body, or
  the failure of either call. The result \<open>Inr None\<close> is the returned \<^verbatim>\<open>null\<close>. The object
  literal \<open>mapData\<close> is always truthy, so \<^verbatim>\<open>mapData || null\<close> is \<open>mapData\<close>.
\<close>

definition geolocate ::
  "(string \<Rightarrow> error + 'n json) \<Rightarrow> string option \<Rightarrow> error + 'n mapData option" where
  "geolocate fetchJson address =
     (case address of
        None \<Rightarrow> Inr None
      | Some a \<Rightarrow>
          if a = [] then Inr None
          else
            (case fetchJson (geocodeUrl a) of
               Inl e \<Rightarrow> Inl e
             | Inr response \<Rightarrow>
                 (case js_index0 response of
                    Inl e \<Rightarrow> Inl e
                  | Inr first \<Rightarrow>
                      (case js_prop first ''lat'' of
                         Inl e \<Rightarrow> Inl e
                       | Inr la \<Rightarrow>
                           (case js_prop first ''lon'' of
                              Inl e \<Rightarrow> Inl e
                            | Inr lo \<Rightarrow> Inr (Some \<lparr>lat = la, lon = lo\<rparr>))))))"

text \<open>Two geocoding services for concrete runs: one finds nothing, one finds two places.\<close>

definition noMatchService :: "string \<Rightarrow> error + nat json" where
  "noMatchService url = Inr (JArr [])"

definition londonService :: "string \<Rightarrow> error + nat json" where
  "londonService url =
     Inr (JArr [JObj [(''lat'', JStr ''51.5''), (''lon'', JStr ''-0.12'')],
                JObj [(''lat'', JStr ''42.9'')]])"

section \<open>Bookings: data\<close>

type_synonym ident = string

text \<open>
  A \<^verbatim>\<open>Date\<close> is its time value, the milliseconds since the epoch.
\<close>

type_synonym date = int

text \<open>
  Modelled from the spec: the enum \<^verbatim>\<open>BookingStatus\<close> is declared by the database client,
  which is not among the sources. These are the six members of the spec's status table;
  the code names all six.
\<close>

datatype BookingStatus = RESERVED | ONGOING | OVERDUE | COMPLETE | CANCELLED | ARCHIVED

text \<open>
  The enum \<^verbatim>\<open>AssetStatus\<close> is declared by the database client too. The code names
  \<^verbatim>\<open>AVAILABLE\<close> and \<^verbatim>\<open>CHECKED_OUT\<close>; any further member is kept by its name.
\<close>

datatype AssetStatus = AVAILABLE | CHECKED_OUT | OtherAssetStatus string

text \<open>JavaScript truthiness of an optional string, and of \<^verbatim>\<open>xs?.length\<close>.\<close>

definition truthy :: "string option \<Rightarrow> string option" where
  "truthy s = (case s of None \<Rightarrow> None | Some v \<Rightarrow> if v = [] then None else Some v)"

definition hasLength :: "'a list option \<Rightarrow> bool" where
  "hasLength xs = (case xs of None \<Rightarrow> False | Some l \<Rightarrow> l \<noteq> [])"

section \<open>Listing bookings (getBookings)\<close>

datatype StatusFilter = StatusIn "BookingStatus list" | StatusNotIn "BookingStatus list"

text \<open>What the store's \<^verbatim>\<open>in\<close> and \<^verbatim>\<open>notIn\<close> filters let through.\<close>

fun statusFilterAdmits :: "StatusFilter \<Rightarrow> BookingStatus \<Rightarrow> bool" where
  "statusFilterAdmits (StatusIn xs) s = List.member xs s"
| "statusFilterAdmits (StatusNotIn xs) s = (\<not> List.member xs s)"

record DateWindow =
  from_lte :: "date option"
  from_gte :: "date option"
  to_lte :: "date option"
  to_gte :: "date option"

record BookingWhereInput =
  w_organizationId :: ident
  w_name_contains_insensitive :: "string option"
  w_custodianTeamMemberId :: "ident option"
  w_custodianUserId :: "ident option"
  w_status :: StatusFilter
  w_assets_some_id_in :: "ident list option"
  w_id_notIn :: "ident list option"
  w_OR :: "DateWindow list option"

datatype SortOrder = Asc | Desc

record FindManyArgs =
  q_skip :: int
  q_take :: int
  q_where :: BookingWhereInput
  q_orderBy_from :: SortOrder

text \<open>
  The arguments of \<^verbatim>\<open>getBookings\<close>; \<open>None\<close> is an argument left out (or \<^verbatim>\<open>null\<close> where
  the type allows it). Page numbers and page sizes are integers.
\<close>

record GetBookingsArgs =
  g_organizationId :: ident
  g_page :: "int option"
  g_perPage :: "int option"
  g_search :: "string option"
  g_statuses :: "BookingStatus list option"
  g_custodianUserId :: "ident option"
  g_custodianTeamMemberId :: "ident option"
  g_assetIds :: "ident list option"
  g_bookingTo :: "date option"
  g_excludeBookingIds :: "ident list option"
  g_bookingFrom :: "date option"

text \<open>
  \<^verbatim>\<open>String.prototype.trim\<close> on the white space of the ASCII range (space, tab, line feed,
  vertical tab, form feed, carriage return).
\<close>

definition isWhiteSpace :: "char \<Rightarrow> bool" where
  "isWhiteSpace c = List.member [CHR 0x20, CHR 0x09, CHR 0x0A, CHR 0x0B, CHR 0x0C, CHR 0x0D] c"

definition trim :: "string \<Rightarrow> string" where
  "trim s = rev (dropWhile isWhiteSpace (rev (dropWhile isWhiteSpace s)))"

definition pageOf :: "GetBookingsArgs \<Rightarrow> int" where
  "pageOf args = (case g_page args of None \<Rightarrow> 1 | Some p \<Rightarrow> p)"

definition perPageOf :: "GetBookingsArgs \<Rightarrow> int" where
  "perPageOf args = (case g_perPage args of None \<Rightarrow> 8 | Some n \<Rightarrow> n)"

text \<open>
  \<^verbatim>\<open>getBookings\<close> up to the two calls of the store (\<^verbatim>\<open>findMany\<close> and \<^verbatim>\<open>count\<close>): the
  query it hands to \<^verbatim>\<open>findMany\<close>. \<^verbatim>\<open>count\<close> gets the same \<open>q_where\<close>.
\<close>

definition getBookings :: "GetBookingsArgs \<Rightarrow> FindManyArgs" where
  "getBookings args =
     (let page = pageOf args;
          perPage = perPageOf args;
          skip = (if page > 1 then (page - 1) * perPage else 0);
          take = (if perPage \<ge> 1 \<and> perPage \<le> 100 then perPage else 20)
      in \<lparr>q_skip = skip,
          q_take = take,
          q_where =
            \<lparr>w_organizationId = g_organizationId args,
             w_name_contains_insensitive =
               (case g_search args of
                  None \<Rightarrow> None
                | Some search \<Rightarrow> if trim search \<noteq> [] then Some (trim search) else None),
             w_custodianTeamMemberId = truthy (g_custodianTeamMemberId args),
             w_custodianUserId = truthy (g_custodianUserId args),
             w_status =
               (case g_statuses args of
                  None \<Rightarrow> StatusNotIn [ARCHIVED]
                | Some statuses \<Rightarrow>
                    if statuses \<noteq> [] then StatusIn statuses else StatusNotIn [ARCHIVED]),
             w_assets_some_id_in =
               (if hasLength (g_assetIds args) then g_assetIds args else None),
             w_id_notIn =
               (if hasLength (g_excludeBookingIds args) then g_excludeBookingIds args else None),
             w_OR =
               (case (g_bookingFrom args, g_bookingTo args) of
                  (Some bookingFrom, Some bookingTo) \<Rightarrow>
                    Some [\<lparr>from_lte = Some bookingTo, from_gte = None,
                           to_lte = None, to_gte = Some bookingFrom\<rparr>,
                          \<lparr>from_lte = None, from_gte = Some bookingFrom,
                           to_lte = Some bookingTo, to_gte = None\<rparr>]
                | _ \<Rightarrow> None)\<rparr>,
          q_orderBy_from = Asc\<rparr>)"

definition sampleArgs :: GetBookingsArgs where
  "sampleArgs =
     \<lparr>g_organizationId = ''org1'', g_page = Some 3, g_perPage = Some 25, g_search = None,
      g_statuses = Some [RESERVED, ONGOING], g_custodianUserId = None,
      g_custodianTeamMemberId = None, g_assetIds = None, g_bookingTo = None,
      g_excludeBookingIds = None, g_bookingFrom = None\<rparr>"

section \<open>Bookings: the store, the scheduler and the mailer\<close>

text \<open>
  The rows of the store, with the columns the booking functions read or write. A table is
  a map from the row's id. The relation between bookings and assets is kept with the
  booking, as the list of the ids of its assets.
\<close>

record Asset =
  a_id :: ident
  a_status :: AssetStatus

record User =
  u_email :: "string option"
  u_firstName :: "string option"
  u_lastName :: "string option"

record TeamMember =
  tm_name :: string
  tm_userId :: "ident option"

record Booking =
  b_name :: string
  b_status :: BookingStatus
  b_from :: "date option"
  b_to :: "date option"
  b_creatorId :: "ident option"
  b_organizationId :: "ident option"
  b_custodianUserId :: "ident option"
  b_custodianTeamMemberId :: "ident option"
  b_activeSchedulerReference :: "ident option"
  b_assets :: "ident list"

text \<open>
  A booking as a query returns it with \<^verbatim>\<open>include\<close>: the row, the custodian rows, the
  rows of its assets and their count.
\<close>

record BookingWith =
  r_id :: ident
  r_booking :: Booking
  r_custodianUser :: "User option"
  r_custodianTeamMember :: "TeamMember option"
  r_assets :: "Asset list"
  r_count_assets :: nat

text \<open>
  The bodies of the three mail templates are in \<^verbatim>\<open>email-helpers\<close>, not among the sources:
  a text is the template's name with its arguments. In \<open>c_from\<close> and \<open>c_to\<close>, \<open>None\<close> is
  \<^verbatim>\<open>undefined\<close> and \<open>Some None\<close> is \<^verbatim>\<open>null\<close>. The type \<open>'h\<close> is \<^verbatim>\<open>ClientHint\<close>.
\<close>

record 'h ContentArgs =
  c_bookingName :: string
  c_assetsCount :: nat
  c_custodian :: string
  c_from :: "date option option"
  c_to :: "date option option"
  c_hints :: 'h
  c_bookingId :: ident

datatype 'h EmailText =
    AssetReservedEmailContent "'h ContentArgs"
  | CompletedBookingEmailContent "'h ContentArgs"
  | DeletedBookingEmailContent "'h ContentArgs"

record 'h Email =
  e_to :: string
  e_subject :: string
  e_text :: "'h EmailText"

text \<open>
  The calls made to the scheduler and to the mailer, in the order of the program text.
  \<^verbatim>\<open>sendCheckinReminder\<close> is in \<^verbatim>\<open>email-helpers\<close> too; its call is recorded with its
  arguments.
\<close>

datatype 'h call =
    SchedulerCancel ident
  | SchedulerSendAfter string ident 'h date
  | SendEmail "'h Email"
  | SendCheckinReminder BookingWith nat 'h

fun isMail :: "'h call \<Rightarrow> bool" where
  "isMail (SendEmail m) = True"
| "isMail (SendCheckinReminder b n h) = True"
| "isMail (SchedulerCancel r) = False"
| "isMail (SchedulerSendAfter k i h d) = False"

fun isSendAfter :: "'h call \<Rightarrow> bool" where
  "isSendAfter (SchedulerSendAfter k i h d) = True"
| "isSendAfter (SendEmail m) = False"
| "isSendAfter (SendCheckinReminder b n h) = False"
| "isSendAfter (SchedulerCancel r) = False"

record 'h world =
  bookings :: "ident \<rightharpoonup> Booking"
  assets :: "ident \<rightharpoonup> AssetStatus"
  users :: "ident \<rightharpoonup> User"
  teamMembers :: "ident \<rightharpoonup> TeamMember"
  calls :: "'h call list"

definition mails :: "'h world \<Rightarrow> 'h call list" where
  "mails w = filter isMail (calls w)"

text \<open>
  What the surroundings decide: the clock (\<^verbatim>\<open>new Date()\<close>), the id the store gives a new
  booking, the job id \<^verbatim>\<open>scheduler.sendAfter\<close> resolves to (a string or \<^verbatim>\<open>null\<close>), the
  column defaults of a new booking, the constant \<^verbatim>\<open>schedulerKeys.checkoutReminder\<close>, and
  the \<^verbatim>\<open>hours\<close> component of \<^verbatim>\<open>calcTimeDifference\<close> (in \<^verbatim>\<open>date-fns\<close>, not among the
  sources).
\<close>

record env =
  now :: date
  newBookingId :: ident
  newJobId :: "ident option"
  blankBooking :: Booking
  checkoutReminder :: string
  timeDifferenceHours :: "date \<Rightarrow> date \<Rightarrow> int"

subsection \<open>The calls of the store\<close>

datatype Relation = Connect ident | Disconnect

text \<open>
  The \<^verbatim>\<open>data\<close> object given to \<^verbatim>\<open>db.booking.update\<close> and \<^verbatim>\<open>db.booking.create\<close>. \<open>None\<close> is
  a member that is not set; in \<open>d_from\<close> and \<open>d_to\<close>, \<open>Some None\<close> is \<^verbatim>\<open>null\<close>.
\<close>

record BookingData =
  d_name :: "string option"
  d_from :: "date option option"
  d_to :: "date option option"
  d_status :: "BookingStatus option"
  d_assets_connect :: "ident list option"
  d_custodianUser :: "Relation option"
  d_custodianTeamMember :: "Relation option"
  d_creator_connect :: "ident option"
  d_organization_connect :: "ident option"

definition writeRelation :: "Relation option \<Rightarrow> ident option \<Rightarrow> ident option" where
  "writeRelation r old =
     (case r of None \<Rightarrow> old | Some (Connect i) \<Rightarrow> Some i | Some Disconnect \<Rightarrow> None)"

definition writeData :: "BookingData \<Rightarrow> Booking \<Rightarrow> Booking" where
  "writeData data row =
     \<lparr>b_name = (case d_name data of None \<Rightarrow> b_name row | Some n \<Rightarrow> n),
      b_status = (case d_status data of None \<Rightarrow> b_status row | Some s \<Rightarrow> s),
      b_from = (case d_from data of None \<Rightarrow> b_from row | Some v \<Rightarrow> v),
      b_to = (case d_to data of None \<Rightarrow> b_to row | Some v \<Rightarrow> v),
      b_creatorId =
        (case d_creator_connect data of None \<Rightarrow> b_creatorId row | Some c \<Rightarrow> Some c),
      b_organizationId =
        (case d_organization_connect data of None \<Rightarrow> b_organizationId row | Some c \<Rightarrow> Some c),
      b_custodianUserId = writeRelation (d_custodianUser data) (b_custodianUserId row),
      b_custodianTeamMemberId =
        writeRelation (d_custodianTeamMember data) (b_custodianTeamMemberId row),
      b_activeSchedulerReference = b_activeSchedulerReference row,
      b_assets =
        (case d_assets_connect data of
           None \<Rightarrow> b_assets row
         | Some ids \<Rightarrow>
             b_assets row @ filter (\<lambda>i. \<not> List.member (b_assets row) i) (remdups ids))\<rparr>"

text \<open>
  A \<^verbatim>\<open>connect\<close> needs the row it names. Assets, custodian users and team members are
  tables of the model; the tables that creator and organization refer to are not, so
  their \<^verbatim>\<open>connect\<close> is not checked.
\<close>

definition connectable :: "'h world \<Rightarrow> BookingData \<Rightarrow> bool" where
  "connectable w data =
     ((case d_assets_connect data of
         None \<Rightarrow> True
       | Some ids \<Rightarrow> list_all (\<lambda>i. assets w i \<noteq> None) ids)
      \<and> (case d_custodianUser data of Some (Connect u) \<Rightarrow> users w u \<noteq> None | _ \<Rightarrow> True)
      \<and> (case d_custodianTeamMember data of
            Some (Connect t) \<Rightarrow> teamMembers w t \<noteq> None
          | _ \<Rightarrow> True))"

definition loadAssets :: "'h world \<Rightarrow> ident list \<Rightarrow> Asset list" where
  "loadAssets w ids =
     List.map_filter (\<lambda>i. map_option (\<lambda>s. \<lparr>a_id = i, a_status = s\<rparr>) (assets w i)) ids"

definition loadBooking :: "'h world \<Rightarrow> ident \<Rightarrow> Booking \<Rightarrow> BookingWith" where
  "loadBooking w i row =
     \<lparr>r_id = i,
      r_booking = row,
      r_custodianUser = (case b_custodianUserId row of None \<Rightarrow> None | Some u \<Rightarrow> users w u),
      r_custodianTeamMember =
        (case b_custodianTeamMemberId row of None \<Rightarrow> None | Some t \<Rightarrow> teamMembers w t),
      r_assets = loadAssets w (b_assets row),
      r_count_assets = length (b_assets row)\<rparr>"

text \<open>\<^verbatim>\<open>db.booking.update({ where: { id }, data, include })\<close>: it throws when no row has the id.\<close>

definition db_booking_update ::
  "'h world \<Rightarrow> ident \<Rightarrow> BookingData \<Rightarrow> error + ('h world \<times> BookingWith)" where
  "db_booking_update w i data =
     (case bookings w i of
        None \<Rightarrow> Inl RecordNotFound
      | Some row \<Rightarrow>
          if connectable w data
          then (let row' = writeData data row;
                    w' = w\<lparr>bookings := (bookings w)(i \<mapsto> row')\<rparr>
                in Inr (w', loadBooking w' i row'))
          else Inl RelatedRecordNotFound)"

text \<open>
  \<^verbatim>\<open>db.booking.create({ data, include })\<close>: the new row is the column defaults with \<open>data\<close>
  written over them. The model lets every \<open>data\<close> through that \<open>connectable\<close> accepts; a
  store that asks for more only makes fewer calls succeed.
\<close>

definition db_booking_create ::
  "env \<Rightarrow> 'h world \<Rightarrow> BookingData \<Rightarrow> error + ('h world \<times> BookingWith)" where
  "db_booking_create env w data =
     (if bookings w (newBookingId env) \<noteq> None then Inl UniqueConstraintFailed
      else if connectable w data
      then (let row = writeData data (blankBooking env);
                w' = w\<lparr>bookings := (bookings w)(newBookingId env \<mapsto> row)\<rparr>
            in Inr (w', loadBooking w' (newBookingId env) row))
      else Inl RelatedRecordNotFound)"

text \<open>\<^verbatim>\<open>db.booking.delete({ where: { id }, include })\<close> returns the deleted booking.\<close>

definition db_booking_delete :: "'h world \<Rightarrow> ident \<Rightarrow> error + ('h world \<times> BookingWith)" where
  "db_booking_delete w i =
     (case bookings w i of
        None \<Rightarrow> Inl RecordNotFound
      | Some row \<Rightarrow> Inr (w\<lparr>bookings := (bookings w)(i := None)\<rparr>, loadBooking w i row))"

subsection \<open>The helpers of the booking module\<close>

definition cancelSheduler :: "'h world \<Rightarrow> Booking option \<Rightarrow> 'h world" where
  "cancelSheduler w b =
     (case b of
        None \<Rightarrow> w
      | Some bk \<Rightarrow>
          (case truthy (b_activeSchedulerReference bk) of
             None \<Rightarrow> w
           | Some ref \<Rightarrow> w\<lparr>calls := calls w @ [SchedulerCancel ref]\<rparr>))"

definition scheduleNextBookingJob ::
  "env \<Rightarrow> 'h world \<Rightarrow> ident \<Rightarrow> 'h \<Rightarrow> date \<Rightarrow> string \<Rightarrow> error + 'h world" where
  "scheduleNextBookingJob env w data_id data_hints whenDate key =
     (let w1 = w\<lparr>calls := calls w @ [SchedulerSendAfter key data_id data_hints whenDate]\<rparr>
      in case bookings w1 data_id of
           None \<Rightarrow> Inl RecordNotFound
         | Some row \<Rightarrow>
             Inr (w1\<lparr>bookings :=
                       (bookings w1)(data_id \<mapsto>
                          row\<lparr>b_activeSchedulerReference := newJobId env\<rparr>)\<rparr>))"

definition updateBookinAssetStates :: "'h world \<Rightarrow> BookingWith \<Rightarrow> AssetStatus \<Rightarrow> 'h world" where
  "updateBookinAssetStates w booking status =
     w\<lparr>assets :=
         (\<lambda>i. case assets w i of
                None \<Rightarrow> None
              | Some s \<Rightarrow>
                  if s \<noteq> status \<and> List.member (map a_id (r_assets booking)) i
                  then Some status else Some s)\<rparr>"

section \<open>Creating and updating a booking (upsertBooking)\<close>

text \<open>
  The argument \<^verbatim>\<open>booking\<close>: every member may be left out (\<open>None\<close>). For \<open>i_from\<close> and
  \<open>i_to\<close>, \<open>Some None\<close> is \<^verbatim>\<open>null\<close>; the ids are only tested for truthiness, so \<open>None\<close>
  stands for \<^verbatim>\<open>undefined\<close> and \<^verbatim>\<open>null\<close> alike.
\<close>

record BookingInput =
  i_from :: "date option option"
  i_id :: "ident option"
  i_creatorId :: "ident option"
  i_name :: "string option"
  i_organizationId :: "ident option"
  i_status :: "BookingStatus option"
  i_to :: "date option option"
  i_custodianTeamMemberId :: "ident option"
  i_custodianUserId :: "ident option"
  i_assetIds :: "ident list option"

text \<open>
  \<^verbatim>\<open>custodianUser.user?.id\<close> of the team member found by \<^verbatim>\<open>db.teamMember.findUnique\<close> with
  \<^verbatim>\<open>select: { id: true, user: true }\<close>.
\<close>

definition teamMemberUserId :: "'h world \<Rightarrow> TeamMember \<Rightarrow> ident option" where
  "teamMemberUserId w tm =
     (case tm_userId tm of
        None \<Rightarrow> None
      | Some u \<Rightarrow> (case users w u of None \<Rightarrow> None | Some usr \<Rightarrow> truthy (Some u)))"

text \<open>
  The first part of \<^verbatim>\<open>upsertBooking\<close>: \<^verbatim>\<open>data\<close> is \<^verbatim>\<open>rest\<close> (the members \<^verbatim>\<open>from\<close>, \<^verbatim>\<open>name\<close>,
  \<^verbatim>\<open>status\<close> and \<^verbatim>\<open>to\<close> of the argument), then the assets and the custodian.
\<close>

definition bookingData :: "'h world \<Rightarrow> BookingInput \<Rightarrow> error + BookingData" where
  "bookingData w booking =
     (let data =
            \<lparr>d_name = i_name booking,
             d_from = i_from booking,
             d_to = i_to booking,
             d_status = i_status booking,
             d_assets_connect =
               (if hasLength (i_assetIds booking) then i_assetIds booking else None),
             d_custodianUser = None,
             d_custodianTeamMember = None,
             d_creator_connect = None,
             d_organization_connect = None\<rparr>
      in case truthy (i_custodianUserId booking) of
           Some custodianUserId \<Rightarrow>
             Inr (data\<lparr>d_custodianUser := Some (Connect custodianUserId),
                       d_custodianTeamMember := Some Disconnect\<rparr>)
         | None \<Rightarrow>
             (case truthy (i_custodianTeamMemberId booking) of
                None \<Rightarrow> Inr data
              | Some custodianTeamMemberId \<Rightarrow>
                  (case teamMembers w custodianTeamMemberId of
                     None \<Rightarrow> Inl CannotFindTeamMember
                   | Some tm \<Rightarrow>
                       Inr (data\<lparr>d_custodianTeamMember := Some (Connect custodianTeamMemberId),
                                 d_custodianUser :=
                                   Some (case teamMemberUserId w tm of
                                           Some u \<Rightarrow> Connect u
                                         | None \<Rightarrow> Disconnect)\<rparr>))))"

text \<open>
  \<^verbatim>\<open>when.setHours(when.getHours() - 1)\<close> on a copy of the date. The hour is that of the
  server's local time; the model takes a zone with a fixed offset from UTC, where the call
  moves the time value back by 3600000 ms.
\<close>

definition hourBefore :: "date \<Rightarrow> date" where
  "hourBefore d = d - 3600000"

text \<open>
  The block that both paths run after the store's call:
  \<^verbatim>\<open>if (res.from && booking.status === BookingStatus.RESERVED)\<close>.
\<close>

definition checkoutReminderJob ::
  "env \<Rightarrow> 'h world \<Rightarrow> BookingInput \<Rightarrow> BookingWith \<Rightarrow> 'h \<Rightarrow> error + 'h world" where
  "checkoutReminderJob env w booking res hints =
     (case b_from (r_booking res) of
        None \<Rightarrow> Inr w
      | Some resFrom \<Rightarrow>
          if i_status booking = Some RESERVED
          then scheduleNextBookingJob env (cancelSheduler w (Some (r_booking res)))
                 (r_id res) hints (hourBefore resFrom) (checkoutReminder env)
          else Inr w)"

text \<open>String conversion of a nullable column inside a template literal.\<close>

definition jsString :: "string option \<Rightarrow> string" where
  "jsString s = (case s of None \<Rightarrow> ''null'' | Some v \<Rightarrow> v)"

text \<open>
  The template literal with first and last name is never empty (it holds a space), so
  the alternative after \<^verbatim>\<open>||\<close>, the team member's name, is never taken.
\<close>

definition custodianName :: "User option \<Rightarrow> string" where
  "custodianName u =
     (case u of
        None \<Rightarrow> ''undefined undefined''
      | Some usr \<Rightarrow> jsString (u_firstName usr) @ '' '' @ jsString (u_lastName usr))"

definition custodianEmail :: "BookingWith \<Rightarrow> string option" where
  "custodianEmail res =
     (case r_custodianUser res of None \<Rightarrow> None | Some usr \<Rightarrow> truthy (u_email usr))"

text \<open>The block \<^verbatim>\<open>if (data.status) { ... }\<close>: the mail calls it pushes.\<close>

definition statusNotification ::
  "env \<Rightarrow> BookingInput \<Rightarrow> BookingData \<Rightarrow> BookingWith \<Rightarrow> 'h \<Rightarrow> 'h call list" where
  "statusNotification env booking data res hints =
     (case d_status data of
        None \<Rightarrow> []
      | Some dataStatus \<Rightarrow>
          (case custodianEmail res of
             None \<Rightarrow> []
           | Some email \<Rightarrow>
               if dataStatus = RESERVED \<or> dataStatus = COMPLETE
               then
                 [SendEmail
                   (if dataStatus = COMPLETE
                    then \<lparr>e_to = email,
                          e_subject = ''Booking completed ('' @ b_name (r_booking res) @ '') - shelf.nu'',
                          e_text = CompletedBookingEmailContent
                            \<lparr>c_bookingName = b_name (r_booking res),
                             c_assetsCount = r_count_assets res,
                             c_custodian = custodianName (r_custodianUser res),
                             c_from = i_from booking,
                             c_to = i_to booking,
                             c_hints = hints,
                             c_bookingId = r_id res\<rparr>\<rparr>
                    else \<lparr>e_to = email,
                          e_subject = ''Booking reserved ('' @ b_name (r_booking res) @ '') - shelf.nu'',
                          e_text = AssetReservedEmailContent
                            \<lparr>c_bookingName = b_name (r_booking res),
                             c_assetsCount = length (r_assets res),
                             c_custodian = custodianName (r_custodianUser res),
                             c_from = Some (b_from (r_booking res)),
                             c_to = Some (b_to (r_booking res)),
                             c_hints = hints,
                             c_bookingId = r_id res\<rparr>\<rparr>)]
               else if dataStatus = ONGOING
               then (case b_to (r_booking res) of
                       None \<Rightarrow> []
                     | Some resTo \<Rightarrow>
                         if timeDifferenceHours env resTo (now env) < 1
                         then [SendCheckinReminder res (length (r_assets res)) hints]
                         else [])
               else []))"

text \<open>
  The value returned is \<^verbatim>\<open>res\<close> on both paths; the constructor tells which of the two
  \<^verbatim>\<open>return\<close> statements gave it.
\<close>

datatype UpsertResult = Updated BookingWith | Created BookingWith

fun resultBooking :: "UpsertResult \<Rightarrow> BookingWith" where
  "resultBooking (Updated res) = res"
| "resultBooking (Created res) = res"

text \<open>
  The branch \<^verbatim>\<open>if (id) { ... return res; }\<close>. The calls collected in \<^verbatim>\<open>promises\<close> act on
  different parts of the state and are run here in the order of the program text.
\<close>

definition upsertBooking_update ::
  "env \<Rightarrow> 'h world \<Rightarrow> BookingInput \<Rightarrow> 'h \<Rightarrow> BookingData \<Rightarrow> ident
     \<Rightarrow> error + ('h world \<times> UpsertResult)" where
  "upsertBooking_update env w booking hints data i =
     (let isTerminalState =
            List.member [Some ARCHIVED, Some CANCELLED, Some COMPLETE] (i_status booking);
          oldBooking = (if isTerminalState then bookings w i else None);
          endedStatus =
            (if isTerminalState
                \<and> (case oldBooking of
                      None \<Rightarrow> False
                    | Some ob \<Rightarrow> List.member [ONGOING, OVERDUE] (b_status ob))
             then Some AVAILABLE else None);
          w1 = (if isTerminalState then cancelSheduler w oldBooking else w)
      in case db_booking_update w1 i data of
           Inl e \<Rightarrow> Inl e
         | Inr (w2, res) \<Rightarrow>
             (let newAssetStatus =
                    (if i_status booking = Some ONGOING
                        \<or> (b_status (r_booking res) = ONGOING \<and> hasLength (i_assetIds booking))
                     then Some CHECKED_OUT else endedStatus);
                  w3 = (case newAssetStatus of
                          None \<Rightarrow> w2
                        | Some s \<Rightarrow> updateBookinAssetStates w2 res s)
              in case checkoutReminderJob env w3 booking res hints of
                   Inl e \<Rightarrow> Inl e
                 | Inr w4 \<Rightarrow>
                     Inr (w4\<lparr>calls := calls w4 @ statusNotification env booking data res hints\<rparr>,
                          Updated res)))"

text \<open>The rest of the function, reached when \<^verbatim>\<open>id\<close> is not truthy.\<close>

definition upsertBooking_create ::
  "env \<Rightarrow> 'h world \<Rightarrow> BookingInput \<Rightarrow> 'h \<Rightarrow> BookingData
     \<Rightarrow> error + ('h world \<times> UpsertResult)" where
  "upsertBooking_create env w booking hints data =
     (let data' = data\<lparr>d_creator_connect :=
                        (case truthy (i_creatorId booking) of
                           None \<Rightarrow> d_creator_connect data
                         | Some creatorId \<Rightarrow> Some creatorId),
                      d_organization_connect :=
                        (case truthy (i_organizationId booking) of
                           None \<Rightarrow> d_organization_connect data
                         | Some organizationId \<Rightarrow> Some organizationId)\<rparr>
      in case db_booking_create env w data' of
           Inl e \<Rightarrow> Inl e
         | Inr (w1, res) \<Rightarrow>
             (case checkoutReminderJob env w1 booking res hints of
                Inl e \<Rightarrow> Inl e
              | Inr w2 \<Rightarrow> Inr (w2, Created res)))"

definition upsertBooking ::
  "env \<Rightarrow> 'h world \<Rightarrow> BookingInput \<Rightarrow> 'h \<Rightarrow> error + ('h world \<times> UpsertResult)" where
  "upsertBooking env w booking hints =
     (case bookingData w booking of
        Inl e \<Rightarrow> Inl e
      | Inr data \<Rightarrow>
          (case truthy (i_id booking) of
             Some i \<Rightarrow> upsertBooking_update env w booking hints data i
           | None \<Rightarrow> upsertBooking_create env w booking hints data))"

section \<open>Deleting a booking (deleteBooking)\<close>

definition deleteBooking :: "'h world \<Rightarrow> ident \<Rightarrow> 'h \<Rightarrow> error + ('h world \<times> BookingWith)" where
  "deleteBooking w i hints =
     (let activeBooking =
            (case bookings w i of
               None \<Rightarrow> None
             | Some row \<Rightarrow>
                 if List.member [OVERDUE, ONGOING] (b_status row) then Some row else None)
      in case db_booking_delete w i of
           Inl e \<Rightarrow> Inl e
         | Inr (w1, b) \<Rightarrow>
             (let w2 =
                    (case custodianEmail b of
                       None \<Rightarrow> w1
                     | Some email \<Rightarrow>
                         w1\<lparr>calls := calls w1 @
                              [SendEmail
                                 \<lparr>e_to = email,
                                  e_subject = ''Booking deleted ('' @ b_name (r_booking b) @ '') - shelf.nu'',
                                  e_text = DeletedBookingEmailContent
                                    \<lparr>c_bookingName = b_name (r_booking b),
                                     c_assetsCount = r_count_assets b,
                                     c_custodian = custodianName (r_custodianUser b),
                                     c_from = Some (b_from (r_booking b)),
                                     c_to = Some (b_to (r_booking b)),
                                     c_hints = hints,
                                     c_bookingId = r_id b\<rparr>\<rparr>]\<rparr>);
                  w3 = (if activeBooking \<noteq> None
                        then updateBookinAssetStates w2 b AVAILABLE else w2);
                  w4 = cancelSheduler w3 (Some (r_booking b))
              in Inr (w4, b)))"

section \<open>Sample data\<close>

text \<open>
  A store with one ongoing booking of two checked-out assets, a third asset that is free,
  and two users; the surroundings; a request to complete the booking.
\<close>

definition sampleBooking :: Booking where
  "sampleBooking =
     \<lparr>b_name = ''Shoot'', b_status = ONGOING, b_from = Some 7200000, b_to = Some 10800000,
      b_creatorId = Some ''u1'', b_organizationId = Some ''o1'',
      b_custodianUserId = Some ''u2'', b_custodianTeamMemberId = None,
      b_activeSchedulerReference = Some ''job1'', b_assets = [''a1'', ''a2'']\<rparr>"

definition sampleWorld :: "unit world" where
  "sampleWorld =
     \<lparr>bookings = [''b1'' \<mapsto> sampleBooking],
      assets = [''a1'' \<mapsto> CHECKED_OUT, ''a2'' \<mapsto> CHECKED_OUT, ''a3'' \<mapsto> AVAILABLE],
      users = [''u1'' \<mapsto> \<lparr>u_email = Some ''olga@shelf.nu'', u_firstName = Some ''Olga'',
                            u_lastName = Some ''Owner''\<rparr>,
               ''u2'' \<mapsto> \<lparr>u_email = Some ''carl@shelf.nu'', u_firstName = Some ''Carl'',
                            u_lastName = None\<rparr>],
      teamMembers = Map.empty,
      calls = []\<rparr>"

definition sampleEnv :: env where
  "sampleEnv =
     \<lparr>now = 10000000, newBookingId = ''b2'', newJobId = Some ''job2'',
      blankBooking =
        \<lparr>b_name = [], b_status = RESERVED, b_from = None, b_to = None, b_creatorId = None,
         b_organizationId = None, b_custodianUserId = None, b_custodianTeamMemberId = None,
         b_activeSchedulerReference = None, b_assets = []\<rparr>,
      checkoutReminder = ''checkoutReminder'',
      timeDifferenceHours = (\<lambda>a b. (a - b) div 3600000)\<rparr>"

definition sampleInput :: BookingInput where
  "sampleInput =
     \<lparr>i_from = None, i_id = Some ''b1'', i_creatorId = Some ''u2'', i_name = None,
      i_organizationId = Some ''o2'', i_status = Some COMPLETE, i_to = None,
      i_custodianTeamMemberId = None, i_custodianUserId = None, i_assetIds = None\<rparr>"

section \<open>Properties of the selection atom\<close>

text \<open>
  Claim C9, as amended. Writing an id toggles its membership: if the id occurs in the
  list, every occurrence is removed; otherwise it is appended at the end. Writing the same
  id twice gives back the original list when the id was not in it; when it was, the result
  is the list without the id followed by the id. For a duplicate-free list the result is
  duplicate-free and has the same elements.
\<close>

theorem setSelectedBulkItemAtom_toggle:
  "setSelectedBulkItemAtom u prev =
     (if u \<in> set prev then filter (\<lambda>item. item \<noteq> u) prev else prev @ [u])
   \<and> (u \<in> set (setSelectedBulkItemAtom u prev)) = (u \<notin> set prev)
   \<and> setSelectedBulkItemAtom u (setSelectedBulkItemAtom u prev) =
       (if u \<in> set prev then filter (\<lambda>item. item \<noteq> u) prev @ [u] else prev)
   \<and> (distinct prev \<longrightarrow>
        distinct (setSelectedBulkItemAtom u (setSelectedBulkItemAtom u prev))
        \<and> set (setSelectedBulkItemAtom u (setSelectedBulkItemAtom u prev)) = set prev)"
  by (auto simp: setSelectedBulkItemAtom_def filter_id_conv)

theorem setSelectedBulkItemAtom_toggle_witness:
  "distinct [''a'', ''b'', ''c''] \<and>
   setSelectedBulkItemAtom ''b'' [''a'', ''b'', ''c''] = [''a'', ''c''] \<and>
   setSelectedBulkItemAtom ''b'' (setSelectedBulkItemAtom ''b'' [''a'', ''b'', ''c''])
     = [''a'', ''c'', ''b''] \<and>
   distinct (setSelectedBulkItemAtom ''b'' (setSelectedBulkItemAtom ''b'' [''a'', ''b'', ''c'']))"
  using setSelectedBulkItemAtom_toggle [of "''b''" "[''a'', ''b'', ''c'']"]
  by (simp add: setSelectedBulkItemAtom_def)

text \<open>
  Claim C9 as stated fails: the list \<open>[a, b]\<close> is duplicate-free, and writing \<open>a\<close> twice
  gives \<open>[b, a]\<close>.
\<close>

theorem setSelectedBulkItemAtom_twice_counterexample:
  "distinct [''a'', ''b''] \<and>
   setSelectedBulkItemAtom ''a'' (setSelectedBulkItemAtom ''a'' [''a'', ''b'']) = [''b'', ''a''] \<and>
   setSelectedBulkItemAtom ''a'' (setSelectedBulkItemAtom ''a'' [''a'', ''b'']) \<noteq> [''a'', ''b'']"
  by (simp add: setSelectedBulkItemAtom_def)

section \<open>Properties of geolocate\<close>

lemma geolocate_truthy_cases:
  assumes "a \<noteq> []"
  shows "(\<exists>e. geolocate f (Some a) = Inl e) \<or> (\<exists>m. geolocate f (Some a) = Inr (Some m))"
  using assms
  by (auto simp: geolocate_def split: sum.splits)

text \<open>
  Claim C10, as amended. \<open>geolocate\<close> returns null exactly when its address is null or
  the empty string. For a non-empty address whose response was read and is an array with
  a first entry other than null, it returns the lat and lon of that entry. The fallback to
  null is never taken: whenever the function returns for a non-empty address, the result
  is not null.
\<close>

theorem geolocate_result:
  "(geolocate f address = Inr None) = (address = None \<or> address = Some [])
   \<and> (address = Some a \<and> a \<noteq> [] \<and> f (geocodeUrl a) = Inr (JArr (JObj kvs # others)) \<longrightarrow>
        geolocate f address = Inr (Some \<lparr>lat = map_of kvs ''lat'', lon = map_of kvs ''lon''\<rparr>))
   \<and> (address = Some a \<and> a \<noteq> [] \<and> f (geocodeUrl a) = Inr (JArr (e # others)) \<and> e \<noteq> JNull \<longrightarrow>
        (\<exists>la lo. js_prop (Some e) ''lat'' = Inr la \<and> js_prop (Some e) ''lon'' = Inr lo
           \<and> geolocate f address = Inr (Some \<lparr>lat = la, lon = lo\<rparr>)))
   \<and> (address = Some a \<and> a \<noteq> [] \<and> geolocate f address = Inr r \<longrightarrow> r \<noteq> None)"
proof (intro conjI impI)
  show "(geolocate f address = Inr None) = (address = None \<or> address = Some [])"
  proof (cases address)
    case None
    then show ?thesis by (simp add: geolocate_def)
  next
    case (Some s)
    show ?thesis
    proof (cases "s = []")
      case True
      with Some show ?thesis by (simp add: geolocate_def)
    next
      case False
      from geolocate_truthy_cases [OF False, of f] Some False show ?thesis by auto
    qed
  qed
next
  assume "address = Some a \<and> a \<noteq> [] \<and> f (geocodeUrl a) = Inr (JArr (JObj kvs # others))"
  then show "geolocate f address
      = Inr (Some \<lparr>lat = map_of kvs ''lat'', lon = map_of kvs ''lon''\<rparr>)"
    by (simp add: geolocate_def)
next
  assume "address = Some a \<and> a \<noteq> [] \<and> f (geocodeUrl a) = Inr (JArr (e # others)) \<and> e \<noteq> JNull"
  then show "\<exists>la lo. js_prop (Some e) ''lat'' = Inr la \<and> js_prop (Some e) ''lon'' = Inr lo
           \<and> geolocate f address = Inr (Some \<lparr>lat = la, lon = lo\<rparr>)"
    by (cases e) (simp_all add: geolocate_def)
next
  assume "address = Some a \<and> a \<noteq> [] \<and> geolocate f address = Inr r"
  with geolocate_truthy_cases [of a f] show "r \<noteq> None" by auto
qed

theorem geolocate_result_witness:
  "geolocate londonService (Some ''London'') =
     Inr (Some \<lparr>lat = Some (JStr ''51.5''), lon = Some (JStr ''-0.12'')\<rparr>)
   \<and> geolocate londonService (Some ''London'') \<noteq> Inr None
   \<and> geolocate londonService None = Inr None"
  using geolocate_result [of londonService "Some ''London''" "''London''"
      "[(''lat'', JStr ''51.5''), (''lon'', JStr ''-0.12'')]" "[JObj [(''lat'', JStr ''42.9'')]]"]
    geolocate_result [of londonService None]
  by (simp add: londonService_def)

text \<open>
  Claim C10 as stated fails: the response \<open>[]\<close> is read successfully for the non-empty
  address \<open>Paris\<close>, and the function returns nothing: reading \<open>lat\<close> of the missing first
  entry throws.
\<close>

theorem geolocate_empty_response_counterexample:
  "noMatchService (geocodeUrl ''Paris'') = Inr (JArr []) \<and>
   geolocate noMatchService (Some ''Paris'') = Inl TypeError"
  by (simp add: geolocate_def noMatchService_def)

section \<open>Properties of getBookings\<close>



text \<open>
  Claim C7. When the statuses argument is null or empty, the status filter of the query
  lets through every status but ARCHIVED; when it is a non-empty list, the filter lets
  through exactly the statuses of the list.
\<close>

theorem getBookings_status_filter:
  "(g_statuses args = None \<or> g_statuses args = Some [] \<longrightarrow>
      (\<forall>s. statusFilterAdmits (w_status (q_where (getBookings args))) s = (s \<noteq> ARCHIVED)))
   \<and> (g_statuses args = Some statuses \<and> statuses \<noteq> [] \<longrightarrow>
      (\<forall>s. statusFilterAdmits (w_status (q_where (getBookings args))) s = (s \<in> set statuses)))"
  by (auto simp: getBookings_def Let_def)

theorem getBookings_status_filter_witness:
  "g_statuses sampleArgs = Some [RESERVED, ONGOING]
   \<and> statusFilterAdmits (w_status (q_where (getBookings sampleArgs))) ONGOING
   \<and> \<not> statusFilterAdmits (w_status (q_where (getBookings sampleArgs))) COMPLETE
   \<and> g_statuses (sampleArgs\<lparr>g_statuses := Some []\<rparr>) = Some []
   \<and> statusFilterAdmits
       (w_status (q_where (getBookings (sampleArgs\<lparr>g_statuses := Some []\<rparr>)))) COMPLETE
   \<and> \<not> statusFilterAdmits
       (w_status (q_where (getBookings (sampleArgs\<lparr>g_statuses := Some []\<rparr>)))) ARCHIVED"
  using getBookings_status_filter [of sampleArgs "[RESERVED, ONGOING]"]
    getBookings_status_filter [of "sampleArgs\<lparr>g_statuses := Some []\<rparr>"]
  by (simp add: sampleArgs_def)

section \<open>Properties of the booking functions\<close>

subsection \<open>What each step leaves alone\<close>

lemma cancelSheduler_frame [simp]:
  "bookings (cancelSheduler w b) = bookings w"
  "assets (cancelSheduler w b) = assets w"
  "users (cancelSheduler w b) = users w"
  "teamMembers (cancelSheduler w b) = teamMembers w"
  by (simp_all add: cancelSheduler_def split: option.splits)

lemma cancelSheduler_calls:
  "calls (cancelSheduler w b) =
     calls w @ (case b of
                  None \<Rightarrow> []
                | Some bk \<Rightarrow>
                    (case truthy (b_activeSchedulerReference bk) of
                       None \<Rightarrow> []
                     | Some r \<Rightarrow> [SchedulerCancel r]))"
  by (simp add: cancelSheduler_def split: option.splits)

lemma updateBookinAssetStates_frame [simp]:
  "bookings (updateBookinAssetStates w b s) = bookings w"
  "users (updateBookinAssetStates w b s) = users w"
  "teamMembers (updateBookinAssetStates w b s) = teamMembers w"
  "calls (updateBookinAssetStates w b s) = calls w"
  by (simp_all add: updateBookinAssetStates_def)

lemma updateBookinAssetStates_assets:
  "assets (updateBookinAssetStates w b s) i =
     (case assets w i of
        None \<Rightarrow> None
      | Some s0 \<Rightarrow> if i \<in> a_id ` set (r_assets b) then Some s else Some s0)"
  by (auto simp: updateBookinAssetStates_def split: option.splits)

lemma updateBookinAssetStates_cong:
  "assets w2 = assets w \<Longrightarrow>
   assets (updateBookinAssetStates w2 b s) = assets (updateBookinAssetStates w b s)"
  by (simp add: updateBookinAssetStates_def)

lemma loadAssets_ids: "a_id ` set (loadAssets w ids) = {i \<in> set ids. assets w i \<noteq> None}"
  by (induction ids) (auto simp: loadAssets_def split: option.splits)

lemma loadBooking_cong:
  "users w2 = users w \<Longrightarrow> teamMembers w2 = teamMembers w \<Longrightarrow> assets w2 = assets w \<Longrightarrow>
   loadBooking w2 i row = loadBooking w i row"
  by (simp add: loadBooking_def loadAssets_def split: option.splits)

lemma connectable_cong:
  "assets w2 = assets w \<Longrightarrow> users w2 = users w \<Longrightarrow> teamMembers w2 = teamMembers w \<Longrightarrow>
   connectable w2 data = connectable w data"
  by (simp add: connectable_def split: option.splits Relation.splits)

lemma loadBooking_sel [simp]:
  "r_id (loadBooking w i row) = i"
  "r_booking (loadBooking w i row) = row"
  "r_assets (loadBooking w i row) = loadAssets w (b_assets row)"
  "r_count_assets (loadBooking w i row) = length (b_assets row)"
  by (simp_all add: loadBooking_def)

lemma db_booking_update_Inr:
  assumes "db_booking_update w i data = Inr (w2, res)"
  shows "\<exists>row. bookings w i = Some row \<and> connectable w data
           \<and> w2 = w\<lparr>bookings := (bookings w)(i \<mapsto> writeData data row)\<rparr>
           \<and> res = loadBooking w i (writeData data row)"
proof (cases "bookings w i")
  case None
  with assms show ?thesis by (simp add: db_booking_update_def)
next
  case (Some row)
  show ?thesis
  proof (cases "connectable w data")
    case False
    with assms Some show ?thesis by (simp add: db_booking_update_def)
  next
    case True
    have "loadBooking (w\<lparr>bookings := (bookings w)(i \<mapsto> writeData data row)\<rparr>) i (writeData data row)
        = loadBooking w i (writeData data row)"
      by (rule loadBooking_cong) simp_all
    with assms Some True show ?thesis
      by (simp add: db_booking_update_def Let_def)
  qed
qed

lemma scheduleNextBookingJob_Inr:
  assumes "scheduleNextBookingJob env w i h d k = Inr w'"
  shows "\<exists>row. bookings w i = Some row
           \<and> w' = w\<lparr>calls := calls w @ [SchedulerSendAfter k i h d],
                     bookings := (bookings w)(i \<mapsto> row\<lparr>b_activeSchedulerReference := newJobId env\<rparr>)\<rparr>"
proof (cases "bookings w i")
  case None
  with assms show ?thesis by (simp add: scheduleNextBookingJob_def Let_def)
next
  case (Some row)
  with assms show ?thesis by (simp add: scheduleNextBookingJob_def Let_def)
qed


lemma checkoutReminderJob_frame:
  assumes "checkoutReminderJob env w booking res hints = Inr w'"
  shows "assets w' = assets w \<and> users w' = users w \<and> teamMembers w' = teamMembers w"
proof (cases "\<exists>f. b_from (r_booking res) = Some f \<and> i_status booking = Some RESERVED")
  case False
  with assms have "w' = w"
    by (auto simp: checkoutReminderJob_def split: option.splits if_splits)
  then show ?thesis by simp
next
  case True
  then obtain f where f: "b_from (r_booking res) = Some f" "i_status booking = Some RESERVED"
    by blast
  with assms have "scheduleNextBookingJob env (cancelSheduler w (Some (r_booking res)))
                 (r_id res) hints (hourBefore f) (checkoutReminder env) = Inr w'"
    by (simp add: checkoutReminderJob_def)
  from scheduleNextBookingJob_Inr [OF this] obtain row where
    "w' = (cancelSheduler w (Some (r_booking res)))
            \<lparr>calls := calls (cancelSheduler w (Some (r_booking res))) @
                [SchedulerSendAfter (checkoutReminder env) (r_id res) hints (hourBefore f)],
             bookings := (bookings (cancelSheduler w (Some (r_booking res))))(r_id res \<mapsto>
                row\<lparr>b_activeSchedulerReference := newJobId env\<rparr>)\<rparr>"
    by blast
  then show ?thesis by simp
qed

lemma checkoutReminderJob_idle:
  assumes "checkoutReminderJob env w booking res hints = Inr w'"
    and "\<not> (\<exists>f. b_from (r_booking res) = Some f \<and> i_status booking = Some RESERVED)"
  shows "w' = w"
  using assms by (auto simp: checkoutReminderJob_def split: option.splits if_splits)

lemma checkoutReminderJob_scheduled:
  assumes "checkoutReminderJob env w booking res hints = Inr w'"
    and "b_from (r_booking res) = Some f" and "i_status booking = Some RESERVED"
  shows "\<exists>row. bookings w (r_id res) = Some row
           \<and> bookings w' = (bookings w)(r_id res \<mapsto> row\<lparr>b_activeSchedulerReference := newJobId env\<rparr>)
           \<and> calls w' = calls w
                @ (case truthy (b_activeSchedulerReference (r_booking res)) of
                     None \<Rightarrow> [] | Some r \<Rightarrow> [SchedulerCancel r])
                @ [SchedulerSendAfter (checkoutReminder env) (r_id res) hints (f - 3600000)]"
proof -
  from assms have "scheduleNextBookingJob env (cancelSheduler w (Some (r_booking res)))
                 (r_id res) hints (hourBefore f) (checkoutReminder env) = Inr w'"
    by (simp add: checkoutReminderJob_def)
  from scheduleNextBookingJob_Inr [OF this] obtain row where
    row: "bookings (cancelSheduler w (Some (r_booking res))) (r_id res) = Some row"
    and w': "w' = (cancelSheduler w (Some (r_booking res)))
            \<lparr>calls := calls (cancelSheduler w (Some (r_booking res))) @
                [SchedulerSendAfter (checkoutReminder env) (r_id res) hints (hourBefore f)],
             bookings := (bookings (cancelSheduler w (Some (r_booking res))))(r_id res \<mapsto>
                row\<lparr>b_activeSchedulerReference := newJobId env\<rparr>)\<rparr>"
    by blast
  from row have "bookings w (r_id res) = Some row" by simp
  moreover from w' have "bookings w' = (bookings w)(r_id res \<mapsto> row\<lparr>b_activeSchedulerReference := newJobId env\<rparr>)"
    by simp
  moreover from w' have "calls w' = calls w
                @ (case truthy (b_activeSchedulerReference (r_booking res)) of
                     None \<Rightarrow> [] | Some r \<Rightarrow> [SchedulerCancel r])
                @ [SchedulerSendAfter (checkoutReminder env) (r_id res) hints (f - 3600000)]"
    by (simp add: cancelSheduler_calls hourBefore_def)
  ultimately show ?thesis by blast
qed

lemma upsertBooking_update_steps:
  fixes w :: "'a world"
  assumes ok: "upsertBooking_update env w booking hints data i = Inr (w', out)"
  shows "\<exists>old w3 w4 res.
     bookings w i = Some old
     \<and> connectable w data
     \<and> res = loadBooking w i (writeData data old)
     \<and> out = Updated res
     \<and> bookings w3 = (bookings w)(i \<mapsto> writeData data old)
     \<and> users w3 = users w \<and> teamMembers w3 = teamMembers w
     \<and> calls w3 = calls w @
          (if i_status booking = Some ARCHIVED \<or> i_status booking = Some CANCELLED
              \<or> i_status booking = Some COMPLETE
           then (case truthy (b_activeSchedulerReference old) of
                   None \<Rightarrow> [] | Some r \<Rightarrow> [SchedulerCancel r])
           else [])
     \<and> assets w3 =
          (if i_status booking = Some ONGOING
              \<or> (b_status (writeData data old) = ONGOING \<and> hasLength (i_assetIds booking))
           then assets (updateBookinAssetStates w res CHECKED_OUT)
           else if (i_status booking = Some ARCHIVED \<or> i_status booking = Some CANCELLED
                      \<or> i_status booking = Some COMPLETE)
                   \<and> (b_status old = ONGOING \<or> b_status old = OVERDUE)
           then assets (updateBookinAssetStates w res AVAILABLE)
           else assets w)
     \<and> checkoutReminderJob env w3 booking res hints = Inr w4
     \<and> w' = w4\<lparr>calls := calls w4 @ statusNotification env booking data res hints\<rparr>"
proof -
  let ?T = "i_status booking = Some ARCHIVED \<or> i_status booking = Some CANCELLED
              \<or> i_status booking = Some COMPLETE"
  let ?M = "List.member [Some ARCHIVED, Some CANCELLED, Some COMPLETE] (i_status booking)"
  define oldBooking where "oldBooking = (if ?M then bookings w i else None)"
  define ended where "ended =
     (if ?M \<and> (case oldBooking of None \<Rightarrow> False
                | Some ob \<Rightarrow> List.member [ONGOING, OVERDUE] (b_status ob))
      then Some AVAILABLE else None)"
  define w1 where "w1 = (if ?M then cancelSheduler w oldBooking else w)"
  define w3f where "w3f = (\<lambda>(w2::'a world) res.
     (case (if i_status booking = Some ONGOING
               \<or> (b_status (r_booking res) = ONGOING \<and> hasLength (i_assetIds booking))
            then Some CHECKED_OUT else ended) of
        None \<Rightarrow> w2
      | Some s \<Rightarrow> updateBookinAssetStates w2 res s))"
  have ok1: "(case db_booking_update w1 i data of
        Inl e \<Rightarrow> Inl e
      | Inr (w2, res) \<Rightarrow>
         (case checkoutReminderJob env (w3f w2 res) booking res hints of
            Inl e \<Rightarrow> Inl e
          | Inr w4 \<Rightarrow>
              Inr (w4\<lparr>calls := calls w4 @ statusNotification env booking data res hints\<rparr>,
                   Updated res))) = Inr (w', out)"
    using ok unfolding upsertBooking_update_def Let_def w1_def w3f_def ended_def oldBooking_def .
  have M: "?M = ?T" by auto
  have w1_frame: "bookings w1 = bookings w" "assets w1 = assets w" "users w1 = users w"
    "teamMembers w1 = teamMembers w"
    by (simp_all add: w1_def)
  obtain w2 res where upd: "db_booking_update w1 i data = Inr (w2, res)"
    using ok1 by (cases "db_booking_update w1 i data") auto
  from db_booking_update_Inr [OF upd] w1_frame obtain old where
    old: "bookings w i = Some old" and conn: "connectable w1 data"
    and w2: "w2 = w1\<lparr>bookings := (bookings w)(i \<mapsto> writeData data old)\<rparr>"
    and res1: "res = loadBooking w1 i (writeData data old)"
    by auto
  have res: "res = loadBooking w i (writeData data old)"
    unfolding res1 by (rule loadBooking_cong) (simp_all add: w1_frame)
  have conn': "connectable w data"
    using conn connectable_cong [of w1 w data] by (simp add: w1_frame)
  define w3 where "w3 = w3f w2 res"
  obtain w4 where job: "checkoutReminderJob env w3 booking res hints = Inr w4"
    and w': "w' = w4\<lparr>calls := calls w4 @ statusNotification env booking data res hints\<rparr>"
    and out: "out = Updated res"
    using ok1 unfolding upd w3_def
    by (cases "checkoutReminderJob env (w3f w2 res) booking res hints") auto
  have b3: "bookings w3 = (bookings w)(i \<mapsto> writeData data old)"
    by (simp add: w3_def w3f_def w2 split: option.splits)
  have u3: "users w3 = users w" "teamMembers w3 = teamMembers w"
    by (simp_all add: w3_def w3f_def w2 w1_frame split: option.splits)
  have c1: "calls w1 = calls w @
          (if ?T then (case truthy (b_activeSchedulerReference old) of
                   None \<Rightarrow> [] | Some r \<Rightarrow> [SchedulerCancel r])
           else [])"
    by (cases ?T) (simp_all add: w1_def oldBooking_def cancelSheduler_calls old)
  have c3: "calls w3 = calls w1"
    by (simp add: w3_def w3f_def w2 split: option.splits)
  have a2: "assets w2 = assets w" by (simp add: w2 w1_frame)
  have e: "ended = (if ?T \<and> (b_status old = ONGOING \<or> b_status old = OVERDUE)
                    then Some AVAILABLE else None)"
    by (cases ?T) (simp_all add: ended_def oldBooking_def old)
  have a3: "assets w3 =
          (if i_status booking = Some ONGOING
              \<or> (b_status (writeData data old) = ONGOING \<and> hasLength (i_assetIds booking))
           then assets (updateBookinAssetStates w res CHECKED_OUT)
           else if ?T \<and> (b_status old = ONGOING \<or> b_status old = OVERDUE)
           then assets (updateBookinAssetStates w res AVAILABLE)
           else assets w)"
    using updateBookinAssetStates_cong [OF a2, of res]
    unfolding w3_def w3f_def e
    by (simp add: a2 res)
  from old conn' res out b3 u3 c3 c1 a3 job w' show ?thesis by (intro exI [of _ old] exI [of _ w3] exI [of _ w4] exI [of _ res]) simp
qed

lemma bookingData_Inr:
  assumes "bookingData w booking = Inr data"
  shows "d_status data = i_status booking \<and> d_creator_connect data = None
         \<and> d_organization_connect data = None
         \<and> d_name data = i_name booking \<and> d_from data = i_from booking \<and> d_to data = i_to booking
         \<and> d_assets_connect data = (if hasLength (i_assetIds booking) then i_assetIds booking else None)"
proof (cases "truthy (i_custodianUserId booking)")
  case (Some u)
  with assms have "data = \<lparr>d_name = i_name booking, d_from = i_from booking, d_to = i_to booking,
             d_status = i_status booking,
             d_assets_connect = (if hasLength (i_assetIds booking) then i_assetIds booking else None),
             d_custodianUser = Some (Connect u), d_custodianTeamMember = Some Disconnect,
             d_creator_connect = None, d_organization_connect = None\<rparr>"
    by (simp add: bookingData_def Let_def)
  then show ?thesis by simp
next
  case None
  note noUser = this
  show ?thesis
  proof (cases "truthy (i_custodianTeamMemberId booking)")
    case None
    with assms noUser have "data = \<lparr>d_name = i_name booking, d_from = i_from booking, d_to = i_to booking,
             d_status = i_status booking,
             d_assets_connect = (if hasLength (i_assetIds booking) then i_assetIds booking else None),
             d_custodianUser = None, d_custodianTeamMember = None,
             d_creator_connect = None, d_organization_connect = None\<rparr>"
      by (simp add: bookingData_def Let_def)
    then show ?thesis by simp
  next
    case (Some t)
    show ?thesis
    proof (cases "teamMembers w t")
      case None
      with assms noUser Some show ?thesis by (simp add: bookingData_def Let_def)
    next
      case (Some tm)
      with assms noUser \<open>truthy (i_custodianTeamMemberId booking) = Some t\<close>
      have "data = \<lparr>d_name = i_name booking, d_from = i_from booking, d_to = i_to booking,
             d_status = i_status booking,
             d_assets_connect = (if hasLength (i_assetIds booking) then i_assetIds booking else None),
             d_custodianUser = Some (case teamMemberUserId w tm of Some u \<Rightarrow> Connect u | None \<Rightarrow> Disconnect),
             d_custodianTeamMember = Some (Connect t),
             d_creator_connect = None, d_organization_connect = None\<rparr>"
        by (simp add: bookingData_def Let_def)
      then show ?thesis by simp
    qed
  qed
qed

lemma upsertBooking_update_path:
  assumes "upsertBooking env w booking hints = Inr (w', out)" and "truthy (i_id booking) = Some i"
  shows "\<exists>data. bookingData w booking = Inr data
           \<and> upsertBooking_update env w booking hints data i = Inr (w', out)"
  using assms by (cases "bookingData w booking") (simp_all add: upsertBooking_def)

lemma upsertBooking_create_path:
  assumes "upsertBooking env w booking hints = Inr (w', out)" and "truthy (i_id booking) = None"
  shows "\<exists>data. bookingData w booking = Inr data
           \<and> upsertBooking_create env w booking hints data = Inr (w', out)"
  using assms by (cases "bookingData w booking") (simp_all add: upsertBooking_def)

lemma writeData_sel [simp]:
  "b_status (writeData data row) = (case d_status data of None \<Rightarrow> b_status row | Some s \<Rightarrow> s)"
  "b_name (writeData data row) = (case d_name data of None \<Rightarrow> b_name row | Some n \<Rightarrow> n)"
  "b_from (writeData data row) = (case d_from data of None \<Rightarrow> b_from row | Some v \<Rightarrow> v)"
  "b_to (writeData data row) = (case d_to data of None \<Rightarrow> b_to row | Some v \<Rightarrow> v)"
  "b_creatorId (writeData data row) =
     (case d_creator_connect data of None \<Rightarrow> b_creatorId row | Some c \<Rightarrow> Some c)"
  "b_organizationId (writeData data row) =
     (case d_organization_connect data of None \<Rightarrow> b_organizationId row | Some c \<Rightarrow> Some c)"
  "b_activeSchedulerReference (writeData data row) = b_activeSchedulerReference row"
  by (simp_all add: writeData_def)

lemma writeData_assets: "set (b_assets row) \<subseteq> set (b_assets (writeData data row))"
  by (simp add: writeData_def split: option.splits)

lemma available_after:
  "assets (updateBookinAssetStates w (loadBooking w i row) s) a =
     (if a \<in> set (b_assets row) then map_option (\<lambda>_. s) (assets w a) else assets w a)"
  by (cases "assets w a") (auto simp: updateBookinAssetStates_assets loadAssets_ids)

lemma statusNotification_mails:
  "filter isMail (statusNotification env booking data res hints)
     = statusNotification env booking data res hints"
proof (cases "d_status data")
  case None
  then show ?thesis by (simp add: statusNotification_def)
next
  case (Some s)
  note st = this
  show ?thesis
  proof (cases "custodianEmail res")
    case None
    with st show ?thesis by (simp add: statusNotification_def)
  next
    case (Some email)
    note em = this
    show ?thesis
    proof (cases "b_to (r_booking res)")
      case None
      with st em show ?thesis
        by (cases s) (simp_all add: statusNotification_def)
    next
      case (Some resTo)
      with st em show ?thesis
        by (cases s; cases "timeDifferenceHours env resTo (now env) < 1")
          (simp_all add: statusNotification_def)
    qed
  qed
qed

lemma checkoutReminderJob_mails:
  assumes "checkoutReminderJob env w booking res hints = Inr w'"
  shows "mails w' = mails w"
proof (cases "\<exists>f. b_from (r_booking res) = Some f \<and> i_status booking = Some RESERVED")
  case False
  from checkoutReminderJob_idle [OF assms False] show ?thesis by simp
next
  case True
  then obtain f where "b_from (r_booking res) = Some f" "i_status booking = Some RESERVED"
    by blast
  from checkoutReminderJob_scheduled [OF assms this] show ?thesis
    by (auto simp: mails_def split: option.splits)
qed

lemma checkoutReminderJob_bookings:
  assumes job: "checkoutReminderJob env w booking res hints = Inr w'"
    and row: "bookings w (r_id res) = Some row"
  shows "bookings w' = (bookings w)(r_id res \<mapsto> row\<lparr>b_activeSchedulerReference :=
            (if \<exists>f. b_from (r_booking res) = Some f \<and> i_status booking = Some RESERVED
             then newJobId env else b_activeSchedulerReference row)\<rparr>)"
proof (cases "\<exists>f. b_from (r_booking res) = Some f \<and> i_status booking = Some RESERVED")
  case False
  from checkoutReminderJob_idle [OF job False] have "w' = w" .
  moreover have "(bookings w)(r_id res \<mapsto> row) = bookings w"
    using row by (rule map_upd_triv)
  ultimately show ?thesis unfolding if_not_P [OF False] by simp
next
  case True
  then obtain f where "b_from (r_booking res) = Some f" "i_status booking = Some RESERVED"
    by blast
  from checkoutReminderJob_scheduled [OF job this] row show ?thesis
    unfolding if_P [OF True] by auto
qed

lemma upsertBooking_update_summary:
  fixes w :: "'a world"
  assumes ok: "upsertBooking env w booking hints = Inr (w', out)"
    and i: "truthy (i_id booking) = Some i"
  shows "\<exists>data old res.
      bookingData w booking = Inr data \<and> bookings w i = Some old
      \<and> res = loadBooking w i (writeData data old) \<and> out = Updated res
      \<and> bookings w' = (bookings w)(i \<mapsto> (writeData data old)\<lparr>b_activeSchedulerReference :=
            (if \<exists>f. b_from (writeData data old) = Some f \<and> i_status booking = Some RESERVED
             then newJobId env else b_activeSchedulerReference old)\<rparr>)
      \<and> assets w' =
          (if i_status booking = Some ONGOING
              \<or> (b_status (writeData data old) = ONGOING \<and> hasLength (i_assetIds booking))
           then assets (updateBookinAssetStates w res CHECKED_OUT)
           else if (i_status booking = Some ARCHIVED \<or> i_status booking = Some CANCELLED
                      \<or> i_status booking = Some COMPLETE)
                   \<and> (b_status old = ONGOING \<or> b_status old = OVERDUE)
           then assets (updateBookinAssetStates w res AVAILABLE)
           else assets w)
      \<and> users w' = users w \<and> teamMembers w' = teamMembers w
      \<and> mails w' = mails w @ statusNotification env booking data res hints"
proof -
  from upsertBooking_update_path [OF ok i] obtain data where
    data: "bookingData w booking = Inr data"
    and upd: "upsertBooking_update env w booking hints data i = Inr (w', out)"
    by blast
  from upsertBooking_update_steps [OF upd] obtain old w3 w4 res where
    old: "bookings w i = Some old"
    and res: "res = loadBooking w i (writeData data old)"
    and out: "out = Updated res"
    and b3: "bookings w3 = (bookings w)(i \<mapsto> writeData data old)"
    and u3: "users w3 = users w" "teamMembers w3 = teamMembers w"
    and c3: "calls w3 = calls w @
          (if i_status booking = Some ARCHIVED \<or> i_status booking = Some CANCELLED
              \<or> i_status booking = Some COMPLETE
           then (case truthy (b_activeSchedulerReference old) of
                   None \<Rightarrow> [] | Some r \<Rightarrow> [SchedulerCancel r])
           else [])"
    and a3: "assets w3 =
          (if i_status booking = Some ONGOING
              \<or> (b_status (writeData data old) = ONGOING \<and> hasLength (i_assetIds booking))
           then assets (updateBookinAssetStates w res CHECKED_OUT)
           else if (i_status booking = Some ARCHIVED \<or> i_status booking = Some CANCELLED
                      \<or> i_status booking = Some COMPLETE)
                   \<and> (b_status old = ONGOING \<or> b_status old = OVERDUE)
           then assets (updateBookinAssetStates w res AVAILABLE)
           else assets w)"
    and job: "checkoutReminderJob env w3 booking res hints = Inr w4"
    and w': "w' = w4\<lparr>calls := calls w4 @ statusNotification env booking data res hints\<rparr>"
    by blast
  have rid: "r_id res = i" and rb: "r_booking res = writeData data old"
    by (simp_all add: res)
  have row3: "bookings w3 (r_id res) = Some (writeData data old)"
    by (simp add: b3 rid)
  from checkoutReminderJob_bookings [OF job row3]
  have b4: "bookings w4 = (bookings w)(i \<mapsto> (writeData data old)\<lparr>b_activeSchedulerReference :=
            (if \<exists>f. b_from (writeData data old) = Some f \<and> i_status booking = Some RESERVED
             then newJobId env else b_activeSchedulerReference old)\<rparr>)"
    by (simp add: b3 rid rb)
  from checkoutReminderJob_frame [OF job]
  have f4: "assets w4 = assets w3" "users w4 = users w3" "teamMembers w4 = teamMembers w3"
    by simp_all
  have m3: "mails w3 = mails w"
    unfolding mails_def c3
    by (cases "i_status booking = Some ARCHIVED \<or> i_status booking = Some CANCELLED
              \<or> i_status booking = Some COMPLETE"; cases "truthy (b_activeSchedulerReference old)")
      simp_all
  have m': "mails w' = mails w @ statusNotification env booking data res hints"
    using checkoutReminderJob_mails [OF job] m3
    by (simp add: w' mails_def statusNotification_mails)
  have "bookings w' = bookings w4" "assets w' = assets w3" "users w' = users w"
    "teamMembers w' = teamMembers w"
    by (simp_all add: w' f4 u3)
  note fin = this
  show ?thesis
  proof (intro exI conjI)
    show "bookingData w booking = Inr data" by fact
    show "bookings w i = Some old" by fact
    show "res = loadBooking w i (writeData data old)" by fact
    show "out = Updated res" by fact
    show "bookings w' = (bookings w)(i \<mapsto> (writeData data old)\<lparr>b_activeSchedulerReference :=
            (if \<exists>f. b_from (writeData data old) = Some f \<and> i_status booking = Some RESERVED
             then newJobId env else b_activeSchedulerReference old)\<rparr>)"
      using fin(1) b4 by simp
    show "assets w' =
          (if i_status booking = Some ONGOING
              \<or> (b_status (writeData data old) = ONGOING \<and> hasLength (i_assetIds booking))
           then assets (updateBookinAssetStates w res CHECKED_OUT)
           else if (i_status booking = Some ARCHIVED \<or> i_status booking = Some CANCELLED
                      \<or> i_status booking = Some COMPLETE)
                   \<and> (b_status old = ONGOING \<or> b_status old = OVERDUE)
           then assets (updateBookinAssetStates w res AVAILABLE)
           else assets w)"
      using fin(2) a3 by simp
    show "users w' = users w" by fact
    show "teamMembers w' = teamMembers w" by fact
    show "mails w' = mails w @ statusNotification env booking data res hints" by fact
  qed
qed


lemma db_booking_create_Inr:
  assumes "db_booking_create env w data = Inr (w1, res)"
  shows "bookings w (newBookingId env) = None \<and> connectable w data
         \<and> w1 = w\<lparr>bookings := (bookings w)(newBookingId env \<mapsto> writeData data (blankBooking env))\<rparr>
         \<and> res = loadBooking w (newBookingId env) (writeData data (blankBooking env))"
proof (cases "bookings w (newBookingId env)")
  case (Some row)
  with assms show ?thesis by (simp add: db_booking_create_def)
next
  case None
  show ?thesis
  proof (cases "connectable w data")
    case False
    with assms None show ?thesis by (simp add: db_booking_create_def)
  next
    case True
    have "loadBooking (w\<lparr>bookings := (bookings w)(newBookingId env \<mapsto> writeData data (blankBooking env))\<rparr>)
            (newBookingId env) (writeData data (blankBooking env))
        = loadBooking w (newBookingId env) (writeData data (blankBooking env))"
      by (rule loadBooking_cong) simp_all
    with assms None True show ?thesis
      by (simp add: db_booking_create_def Let_def)
  qed
qed

lemma upsertBooking_create_steps:
  fixes w :: "'a world"
  assumes ok: "upsertBooking_create env w booking hints data = Inr (w', out)"
  shows "\<exists>data' res w1.
      data' = data\<lparr>d_creator_connect :=
                        (case truthy (i_creatorId booking) of
                           None \<Rightarrow> d_creator_connect data
                         | Some creatorId \<Rightarrow> Some creatorId),
                      d_organization_connect :=
                        (case truthy (i_organizationId booking) of
                           None \<Rightarrow> d_organization_connect data
                         | Some organizationId \<Rightarrow> Some organizationId)\<rparr>
      \<and> bookings w (newBookingId env) = None
      \<and> res = loadBooking w (newBookingId env) (writeData data' (blankBooking env))
      \<and> out = Created res
      \<and> w1 = w\<lparr>bookings := (bookings w)(newBookingId env \<mapsto> writeData data' (blankBooking env))\<rparr>
      \<and> checkoutReminderJob env w1 booking res hints = Inr w'"
proof -
  define data' where "data' = data\<lparr>d_creator_connect :=
                        (case truthy (i_creatorId booking) of
                           None \<Rightarrow> d_creator_connect data
                         | Some creatorId \<Rightarrow> Some creatorId),
                      d_organization_connect :=
                        (case truthy (i_organizationId booking) of
                           None \<Rightarrow> d_organization_connect data
                         | Some organizationId \<Rightarrow> Some organizationId)\<rparr>"
  have ok1: "(case db_booking_create env w data' of
           Inl e \<Rightarrow> Inl e
         | Inr (w1, res) \<Rightarrow>
             (case checkoutReminderJob env w1 booking res hints of
                Inl e \<Rightarrow> Inl e
              | Inr w2 \<Rightarrow> Inr (w2, Created res))) = Inr (w', out)"
    using ok unfolding upsertBooking_create_def Let_def data'_def .
  obtain w1 res where cr: "db_booking_create env w data' = Inr (w1, res)"
    using ok1 by (cases "db_booking_create env w data'") auto
  have job: "checkoutReminderJob env w1 booking res hints = Inr w'" and out: "out = Created res"
    using ok1 unfolding cr
    by (cases "checkoutReminderJob env w1 booking res hints"; simp)+
  from db_booking_create_Inr [OF cr] job out data'_def show ?thesis
    by (intro exI [of _ data'] exI [of _ res] exI [of _ w1]) simp
qed

lemmas run_defs =
  upsertBooking_def bookingData_def upsertBooking_update_def upsertBooking_create_def
  db_booking_update_def db_booking_create_def db_booking_delete_def deleteBooking_def
  connectable_def writeData_def writeRelation_def loadBooking_def loadAssets_def
  cancelSheduler_def scheduleNextBookingJob_def updateBookinAssetStates_def
  checkoutReminderJob_def statusNotification_def custodianEmail_def custodianName_def
  jsString_def truthy_def hasLength_def hourBefore_def teamMemberUserId_def Let_def
  sampleBooking_def sampleWorld_def sampleEnv_def sampleInput_def

subsection \<open>Asset statuses\<close>

text \<open>
  Claim C1. A call with a booking id and a requested status COMPLETE, CANCELLED or
  ARCHIVED, on a stored booking \<open>old\<close>: if the status of \<open>old\<close> is ONGOING or OVERDUE, then
  after the call every asset attached to the booking is AVAILABLE (those whose status
  differed were set, and no other asset changed); if the status of \<open>old\<close> is neither, no
  asset status changes.
\<close>

theorem upsertBooking_terminal_assets:
  assumes "upsertBooking env w booking hints = Inr (w', out)"
    and "truthy (i_id booking) = Some i"
    and "i_status booking = Some s"
    and "s = COMPLETE \<or> s = CANCELLED \<or> s = ARCHIVED"
    and "bookings w i = Some old"
  shows "(b_status old = ONGOING \<or> b_status old = OVERDUE \<longrightarrow>
           (\<exists>new. bookings w' i = Some new \<and> b_status new = s
              \<and> set (b_assets old) \<subseteq> set (b_assets new)
              \<and> (\<forall>a \<in> set (b_assets new). assets w a \<noteq> None \<longrightarrow> assets w' a = Some AVAILABLE)
              \<and> (\<forall>a. a \<notin> set (b_assets new) \<longrightarrow> assets w' a = assets w a)))
       \<and> (b_status old \<noteq> ONGOING \<and> b_status old \<noteq> OVERDUE \<longrightarrow> assets w' = assets w)"
proof -
  from upsertBooking_update_path [OF assms(1,2)] obtain data where
    data: "bookingData w booking = Inr data"
    and upd: "upsertBooking_update env w booking hints data i = Inr (w', out)"
    by blast
  from bookingData_Inr [OF data] assms(3) have ds: "d_status data = Some s" by simp
  from upsertBooking_update_steps [OF upd] assms(5) obtain w3 w4 res where
    res: "res = loadBooking w i (writeData data old)"
    and b3: "bookings w3 = (bookings w)(i \<mapsto> writeData data old)"
    and a3: "assets w3 =
          (if i_status booking = Some ONGOING
              \<or> (b_status (writeData data old) = ONGOING \<and> hasLength (i_assetIds booking))
           then assets (updateBookinAssetStates w res CHECKED_OUT)
           else if (i_status booking = Some ARCHIVED \<or> i_status booking = Some CANCELLED
                      \<or> i_status booking = Some COMPLETE)
                   \<and> (b_status old = ONGOING \<or> b_status old = OVERDUE)
           then assets (updateBookinAssetStates w res AVAILABLE)
           else assets w)"
    and job: "checkoutReminderJob env w3 booking res hints = Inr w4"
    and w': "w' = w4\<lparr>calls := calls w4 @ statusNotification env booking data res hints\<rparr>"
    by auto
  from assms(3,4) have "\<not> (\<exists>f. b_from (r_booking res) = Some f \<and> i_status booking = Some RESERVED)"
    by auto
  from checkoutReminderJob_idle [OF job this] have w4: "w4 = w3" .
  have bw': "bookings w' i = Some (writeData data old)" by (simp add: w' w4 b3)
  have aw': "assets w' = assets w3" by (simp add: w' w4)
  have a3': "assets w3 =
          (if b_status old = ONGOING \<or> b_status old = OVERDUE
           then assets (updateBookinAssetStates w res AVAILABLE) else assets w)"
    using assms(3,4) ds unfolding a3 by auto
  show ?thesis
  proof (intro conjI impI)
    assume act: "b_status old = ONGOING \<or> b_status old = OVERDUE"
    have "\<forall>a \<in> set (b_assets (writeData data old)). assets w a \<noteq> None \<longrightarrow> assets w' a = Some AVAILABLE"
      using act by (auto simp: aw' a3' res available_after)
    moreover have "\<forall>a. a \<notin> set (b_assets (writeData data old)) \<longrightarrow> assets w' a = assets w a"
      using act by (simp add: aw' a3' res available_after)
    moreover have "b_status (writeData data old) = s" by (simp add: ds)
    ultimately show "\<exists>new. bookings w' i = Some new \<and> b_status new = s
              \<and> set (b_assets old) \<subseteq> set (b_assets new)
              \<and> (\<forall>a \<in> set (b_assets new). assets w a \<noteq> None \<longrightarrow> assets w' a = Some AVAILABLE)
              \<and> (\<forall>a. a \<notin> set (b_assets new) \<longrightarrow> assets w' a = assets w a)"
      using bw' writeData_assets [of old data] by blast
  next
    assume "b_status old \<noteq> ONGOING \<and> b_status old \<noteq> OVERDUE"
    then show "assets w' = assets w" by (simp add: aw' a3')
  qed
qed

theorem upsertBooking_terminal_assets_witness:
  "\<exists>w' out. upsertBooking sampleEnv sampleWorld sampleInput () = Inr (w', out)
      \<and> assets sampleWorld ''a1'' = Some CHECKED_OUT
      \<and> assets w' ''a1'' = Some AVAILABLE \<and> assets w' ''a2'' = Some AVAILABLE"
proof -
  have "\<exists>w' out. upsertBooking sampleEnv sampleWorld sampleInput () = Inr (w', out)"
    by (simp add: run_defs)
  then obtain w' out where
    run: "upsertBooking sampleEnv sampleWorld sampleInput () = Inr (w', out)" by blast
  have h: "truthy (i_id sampleInput) = Some ''b1''" "i_status sampleInput = Some COMPLETE"
    "COMPLETE = COMPLETE \<or> COMPLETE = CANCELLED \<or> COMPLETE = ARCHIVED"
    "bookings sampleWorld ''b1'' = Some sampleBooking"
    by (simp_all add: sampleInput_def truthy_def sampleWorld_def)
  have old: "b_status sampleBooking = ONGOING" "set (b_assets sampleBooking) = {''a1'', ''a2''}"
    "assets sampleWorld ''a1'' = Some CHECKED_OUT" "assets sampleWorld ''a2'' = Some CHECKED_OUT"
    by (simp_all add: sampleBooking_def sampleWorld_def)
  from upsertBooking_terminal_assets [OF run h] old
  have "assets w' ''a1'' = Some AVAILABLE \<and> assets w' ''a2'' = Some AVAILABLE"
    by auto
  with run old show ?thesis by blast
qed

text \<open>
  Claim C2. A call with a booking id: if the requested status is ONGOING, or the updated
  booking's status is ONGOING and the request attaches at least one asset id, then every
  asset attached to the updated booking is CHECKED_OUT after the call, and no other asset
  changed.
\<close>

theorem upsertBooking_ongoing_assets:
  assumes "upsertBooking env w booking hints = Inr (w', out)"
    and "truthy (i_id booking) = Some i"
    and "i_status booking = Some ONGOING
         \<or> (b_status (r_booking (resultBooking out)) = ONGOING \<and> hasLength (i_assetIds booking))"
  shows "\<exists>res new. out = Updated res \<and> r_id res = i \<and> bookings w' i = Some new
     \<and> b_status new = b_status (r_booking res) \<and> b_assets new = b_assets (r_booking res)
     \<and> (\<forall>a \<in> set (r_assets res). assets w' (a_id a) = Some CHECKED_OUT)
     \<and> (\<forall>a \<in> set (b_assets new). assets w a \<noteq> None \<longrightarrow> assets w' a = Some CHECKED_OUT)
     \<and> (\<forall>a. a \<notin> set (b_assets new) \<longrightarrow> assets w' a = assets w a)"
proof -
  from upsertBooking_update_summary [OF assms(1,2)] obtain data old res where
    res: "res = loadBooking w i (writeData data old)" and out: "out = Updated res"
    and b': "bookings w' = (bookings w)(i \<mapsto> (writeData data old)\<lparr>b_activeSchedulerReference :=
            (if \<exists>f. b_from (writeData data old) = Some f \<and> i_status booking = Some RESERVED
             then newJobId env else b_activeSchedulerReference old)\<rparr>)"
    and a': "assets w' =
          (if i_status booking = Some ONGOING
              \<or> (b_status (writeData data old) = ONGOING \<and> hasLength (i_assetIds booking))
           then assets (updateBookinAssetStates w res CHECKED_OUT)
           else if (i_status booking = Some ARCHIVED \<or> i_status booking = Some CANCELLED
                      \<or> i_status booking = Some COMPLETE)
                   \<and> (b_status old = ONGOING \<or> b_status old = OVERDUE)
           then assets (updateBookinAssetStates w res AVAILABLE)
           else assets w)"
    by blast
  define new where "new = (writeData data old)\<lparr>b_activeSchedulerReference :=
            (if \<exists>f. b_from (writeData data old) = Some f \<and> i_status booking = Some RESERVED
             then newJobId env else b_activeSchedulerReference old)\<rparr>"
  have n: "bookings w' i = Some new" "b_status new = b_status (r_booking res)"
    "b_assets new = b_assets (r_booking res)" "b_assets new = b_assets (writeData data old)"
    by (simp_all add: b' new_def res)
  from assms(3) have cond: "i_status booking = Some ONGOING
              \<or> (b_status (writeData data old) = ONGOING \<and> hasLength (i_assetIds booking))"
    by (simp add: out res)
  have a'': "assets w' = assets (updateBookinAssetStates w (loadBooking w i (writeData data old)) CHECKED_OUT)"
    using cond unfolding a' res by simp
  have p1: "\<forall>a \<in> set (b_assets new). assets w a \<noteq> None \<longrightarrow> assets w' a = Some CHECKED_OUT"
    by (auto simp: a'' available_after n(4))
  have p2: "\<forall>a. a \<notin> set (b_assets new) \<longrightarrow> assets w' a = assets w a"
    by (simp add: a'' available_after n(4))
  have p3: "\<forall>a \<in> set (r_assets res). assets w' (a_id a) = Some CHECKED_OUT"
  proof
    fix a assume "a \<in> set (r_assets res)"
    then have "a_id a \<in> a_id ` set (loadAssets w (b_assets (writeData data old)))"
      by (simp add: res)
    then have "a_id a \<in> set (b_assets new) \<and> assets w (a_id a) \<noteq> None"
      by (simp add: loadAssets_ids n(4))
    with p1 show "assets w' (a_id a) = Some CHECKED_OUT" by blast
  qed
  have "r_id res = i" by (simp add: res)
  with out n p1 p2 p3 show ?thesis by blast
qed

theorem upsertBooking_ongoing_assets_witness:
  "\<exists>w' out. upsertBooking sampleEnv sampleWorld
                (sampleInput\<lparr>i_status := None, i_assetIds := Some [''a3'']\<rparr>) () = Inr (w', out)
      \<and> b_status (r_booking (resultBooking out)) = ONGOING
      \<and> assets sampleWorld ''a3'' = Some AVAILABLE
      \<and> assets w' ''a3'' = Some CHECKED_OUT"
proof -
  let ?input = "sampleInput\<lparr>i_status := None, i_assetIds := Some [''a3'']\<rparr>"
  have "\<exists>w' out. upsertBooking sampleEnv sampleWorld ?input () = Inr (w', out)
          \<and> b_status (r_booking (resultBooking out)) = ONGOING
          \<and> b_assets (r_booking (resultBooking out)) = [''a1'', ''a2'', ''a3'']"
    by (simp add: run_defs)
  then obtain w' out where
    run: "upsertBooking sampleEnv sampleWorld ?input () = Inr (w', out)"
    and st: "b_status (r_booking (resultBooking out)) = ONGOING"
    and at: "b_assets (r_booking (resultBooking out)) = [''a1'', ''a2'', ''a3'']"
    by blast
  have h: "truthy (i_id ?input) = Some ''b1''"
    by (simp add: sampleInput_def truthy_def)
  have c: "i_status ?input = Some ONGOING
         \<or> (b_status (r_booking (resultBooking out)) = ONGOING \<and> hasLength (i_assetIds ?input))"
    using st by (simp add: hasLength_def)
  have a3: "assets sampleWorld ''a3'' = Some AVAILABLE" by (simp add: sampleWorld_def)
  from upsertBooking_ongoing_assets [OF run h c] at a3
  have "assets w' ''a3'' = Some CHECKED_OUT" by auto
  with run st a3 show ?thesis by blast
qed

subsection \<open>Mails\<close>

text \<open>
  Claim C3. A call with a booking id whose data carries the status \<open>s\<close>. Without a
  custodian user email no mail is sent. With one, exactly one mail is sent for RESERVED
  (to that address, reserved-booking template) and for COMPLETE (to that address,
  completed-booking template); for ONGOING the check-in reminder is sent exactly when the
  \<^verbatim>\<open>to\<close> date is not null and the hours of its time difference to the current time are
  below 1; for CANCELLED, ARCHIVED and OVERDUE no mail is sent.
\<close>

theorem upsertBooking_status_mail:
  assumes "upsertBooking env w booking hints = Inr (w', out)"
    and "truthy (i_id booking) = Some i"
    and "i_status booking = Some s"
  shows "\<exists>res. out = Updated res \<and>
     (case custodianEmail res of
        None \<Rightarrow> mails w' = mails w
      | Some email \<Rightarrow>
          (s = RESERVED \<longrightarrow>
             (\<exists>args. mails w' = mails w @
                [SendEmail \<lparr>e_to = email,
                   e_subject = ''Booking reserved ('' @ b_name (r_booking res) @ '') - shelf.nu'',
                   e_text = AssetReservedEmailContent args\<rparr>]))
        \<and> (s = COMPLETE \<longrightarrow>
             (\<exists>args. mails w' = mails w @
                [SendEmail \<lparr>e_to = email,
                   e_subject = ''Booking completed ('' @ b_name (r_booking res) @ '') - shelf.nu'',
                   e_text = CompletedBookingEmailContent args\<rparr>]))
        \<and> (s = ONGOING \<longrightarrow>
             mails w' = mails w @
               (case b_to (r_booking res) of
                  None \<Rightarrow> []
                | Some resTo \<Rightarrow>
                    if timeDifferenceHours env resTo (now env) < 1
                    then [SendCheckinReminder res (length (r_assets res)) hints] else []))
        \<and> (s = CANCELLED \<or> s = ARCHIVED \<or> s = OVERDUE \<longrightarrow> mails w' = mails w))"
proof -
  from upsertBooking_update_summary [OF assms(1,2)] obtain data old res where
    data: "bookingData w booking = Inr data"
    and old: "bookings w i = Some old"
    and out: "out = Updated res"
    and m: "mails w' = mails w @ statusNotification env booking data res hints"
    by blast
  from bookingData_Inr [OF data] assms(3) have ds: "d_status data = Some s" by simp
  have "case custodianEmail res of
        None \<Rightarrow> mails w' = mails w
      | Some email \<Rightarrow>
          (s = RESERVED \<longrightarrow>
             (\<exists>args. mails w' = mails w @
                [SendEmail \<lparr>e_to = email,
                   e_subject = ''Booking reserved ('' @ b_name (r_booking res) @ '') - shelf.nu'',
                   e_text = AssetReservedEmailContent args\<rparr>]))
        \<and> (s = COMPLETE \<longrightarrow>
             (\<exists>args. mails w' = mails w @
                [SendEmail \<lparr>e_to = email,
                   e_subject = ''Booking completed ('' @ b_name (r_booking res) @ '') - shelf.nu'',
                   e_text = CompletedBookingEmailContent args\<rparr>]))
        \<and> (s = ONGOING \<longrightarrow>
             mails w' = mails w @
               (case b_to (r_booking res) of
                  None \<Rightarrow> []
                | Some resTo \<Rightarrow>
                    if timeDifferenceHours env resTo (now env) < 1
                    then [SendCheckinReminder res (length (r_assets res)) hints] else []))
        \<and> (s = CANCELLED \<or> s = ARCHIVED \<or> s = OVERDUE \<longrightarrow> mails w' = mails w)"
  proof (cases "custodianEmail res")
    case None
    then show ?thesis by (simp add: m statusNotification_def ds)
  next
    case (Some email)
    note em = this
    show ?thesis
    proof (cases "b_to (r_booking res)")
      case None
      with em show ?thesis
        by (cases s) (simp_all add: m statusNotification_def ds)
    next
      case (Some resTo)
      with em show ?thesis
        by (cases s; cases "timeDifferenceHours env resTo (now env) < 1")
          (simp_all add: m statusNotification_def ds)
    qed
  qed
  with out show ?thesis by blast
qed

theorem upsertBooking_status_mail_witness:
  "\<exists>w' out args. upsertBooking sampleEnv sampleWorld sampleInput () = Inr (w', out)
      \<and> i_status sampleInput = Some COMPLETE
      \<and> mails w' = [SendEmail \<lparr>e_to = ''carl@shelf.nu'',
                       e_subject = ''Booking completed (Shoot) - shelf.nu'',
                       e_text = CompletedBookingEmailContent args\<rparr>]"
proof -
  have "\<exists>w' out. upsertBooking sampleEnv sampleWorld sampleInput () = Inr (w', out)
          \<and> custodianEmail (resultBooking out) = Some ''carl@shelf.nu''
          \<and> b_name (r_booking (resultBooking out)) = ''Shoot''"
    by (simp add: run_defs)
  then obtain w' out where
    run: "upsertBooking sampleEnv sampleWorld sampleInput () = Inr (w', out)"
    and em: "custodianEmail (resultBooking out) = Some ''carl@shelf.nu''"
    and nm: "b_name (r_booking (resultBooking out)) = ''Shoot''"
    by blast
  have h: "truthy (i_id sampleInput) = Some ''b1''" "i_status sampleInput = Some COMPLETE"
    by (simp_all add: sampleInput_def truthy_def)
  have m0: "mails sampleWorld = []" by (simp add: mails_def sampleWorld_def)
  from upsertBooking_status_mail [OF run h] em nm m0
  have "\<exists>args. mails w' = [SendEmail \<lparr>e_to = ''carl@shelf.nu'',
                       e_subject = ''Booking completed (Shoot) - shelf.nu'',
                       e_text = CompletedBookingEmailContent args\<rparr>]"
    by auto
  with run h show ?thesis by blast
qed

subsection \<open>Scheduled jobs\<close>



subsection \<open>Deleting\<close>

text \<open>
  Claim C5. \<open>deleteBooking\<close> removes the booking's row. If the booking's status was ONGOING
  or OVERDUE, its attached assets are AVAILABLE afterwards and no other asset changed; for
  any other status no asset status changes. In both cases the job the booking refers to
  is cancelled and no job is scheduled, and the deletion mail is sent exactly when the
  custodian user has an email address, to that address.
\<close>

theorem deleteBooking_effects:
  fixes w :: "'a world"
  assumes ok: "deleteBooking w i hints = Inr (w', b)"
  shows "\<exists>row. bookings w i = Some row \<and> r_booking b = row \<and> r_id b = i
     \<and> bookings w' = (bookings w)(i := None)
     \<and> (b_status row = ONGOING \<or> b_status row = OVERDUE \<longrightarrow>
          (\<forall>a \<in> set (b_assets row). assets w a \<noteq> None \<longrightarrow> assets w' a = Some AVAILABLE)
          \<and> (\<forall>a. a \<notin> set (b_assets row) \<longrightarrow> assets w' a = assets w a))
     \<and> (b_status row \<noteq> ONGOING \<and> b_status row \<noteq> OVERDUE \<longrightarrow> assets w' = assets w)
     \<and> (\<exists>cs. calls w' = calls w @ cs
            \<and> (\<forall>r. truthy (b_activeSchedulerReference row) = Some r \<longrightarrow> SchedulerCancel r \<in> set cs)
            \<and> filter isSendAfter cs = [])
     \<and> (case custodianEmail b of
          None \<Rightarrow> mails w' = mails w
        | Some email \<Rightarrow>
            (\<exists>args. mails w' = mails w @
               [SendEmail \<lparr>e_to = email,
                  e_subject = ''Booking deleted ('' @ b_name row @ '') - shelf.nu'',
                  e_text = DeletedBookingEmailContent args\<rparr>]))"
proof -
  obtain row where row: "bookings w i = Some row"
    using ok by (cases "bookings w i") (simp_all add: deleteBooking_def db_booking_delete_def)
  define b0 where "b0 = loadBooking w i row"
  define w1 where "w1 = w\<lparr>bookings := (bookings w)(i := None)\<rparr>"
  define mail where "mail = (case custodianEmail b0 of
       None \<Rightarrow> []
     | Some email \<Rightarrow>
         [SendEmail
            \<lparr>e_to = email,
             e_subject = ''Booking deleted ('' @ b_name (r_booking b0) @ '') - shelf.nu'',
             e_text = DeletedBookingEmailContent
               \<lparr>c_bookingName = b_name (r_booking b0),
                c_assetsCount = r_count_assets b0,
                c_custodian = custodianName (r_custodianUser b0),
                c_from = Some (b_from (r_booking b0)),
                c_to = Some (b_to (r_booking b0)),
                c_hints = hints,
                c_bookingId = r_id b0\<rparr>\<rparr>])"
  define w2 where "w2 = w1\<lparr>calls := calls w1 @ mail\<rparr>"
  define w3 where "w3 = (if b_status row = ONGOING \<or> b_status row = OVERDUE
                          then updateBookinAssetStates w2 b0 AVAILABLE else w2)"
  have del: "db_booking_delete w i = Inr (w1, b0)"
    by (simp add: db_booking_delete_def row w1_def b0_def)
  have run: "deleteBooking w i hints = Inr (cancelSheduler w3 (Some (r_booking b0)), b0)"
    by (cases "custodianEmail b0"; cases "b_status row")
      (simp_all add: deleteBooking_def Let_def del row w2_def w3_def mail_def)
  from ok run have w': "w' = cancelSheduler w3 (Some row)" and b: "b = b0"
    by (simp_all add: b0_def)
  have rb: "r_booking b = row" "r_id b = i" by (simp_all add: b b0_def)
  have bw': "bookings w' = (bookings w)(i := None)"
    by (simp add: w' w3_def w2_def w1_def)
  have a2: "assets w2 = assets w" by (simp add: w2_def w1_def)
  have aw': "assets w' = (if b_status row = ONGOING \<or> b_status row = OVERDUE
                          then assets (updateBookinAssetStates w b0 AVAILABLE) else assets w)"
    using updateBookinAssetStates_cong [OF a2, of b0 AVAILABLE]
    by (simp add: w' w3_def a2)
  have act: "b_status row = ONGOING \<or> b_status row = OVERDUE \<longrightarrow>
          (\<forall>a \<in> set (b_assets row). assets w a \<noteq> None \<longrightarrow> assets w' a = Some AVAILABLE)
          \<and> (\<forall>a. a \<notin> set (b_assets row) \<longrightarrow> assets w' a = assets w a)"
    by (auto simp: aw' b0_def available_after)
  have idle: "b_status row \<noteq> ONGOING \<and> b_status row \<noteq> OVERDUE \<longrightarrow> assets w' = assets w"
    by (simp add: aw')
  have c3: "calls w3 = calls w @ mail"
    by (simp add: w3_def w2_def w1_def)
  define cs where "cs = mail @ (case truthy (b_activeSchedulerReference row) of
                       None \<Rightarrow> [] | Some r \<Rightarrow> [SchedulerCancel r])"
  have cw': "calls w' = calls w @ cs"
    by (simp add: w' cancelSheduler_calls c3 cs_def)
  have canc: "\<forall>r. truthy (b_activeSchedulerReference row) = Some r \<longrightarrow> SchedulerCancel r \<in> set cs"
    by (simp add: cs_def)
  have nojob: "filter isSendAfter cs = []"
    by (cases "custodianEmail b0"; cases "truthy (b_activeSchedulerReference row)")
      (simp_all add: cs_def mail_def)
  have mw': "mails w' = mails w @ mail"
    unfolding mails_def cw'
    by (cases "custodianEmail b0"; cases "truthy (b_activeSchedulerReference row)")
      (simp_all add: cs_def mail_def)
  have ml: "case custodianEmail b of
          None \<Rightarrow> mails w' = mails w
        | Some email \<Rightarrow>
            (\<exists>args. mails w' = mails w @
               [SendEmail \<lparr>e_to = email,
                  e_subject = ''Booking deleted ('' @ b_name row @ '') - shelf.nu'',
                  e_text = DeletedBookingEmailContent args\<rparr>])"
    by (cases "custodianEmail b0") (simp_all add: b mw' mail_def b0_def)
  from row rb bw' act idle cw' canc nojob ml show ?thesis by blast
qed

theorem deleteBooking_effects_witness:
  "\<exists>w' b args. deleteBooking sampleWorld ''b1'' () = Inr (w', b)
      \<and> bookings w' ''b1'' = None
      \<and> assets sampleWorld ''a1'' = Some CHECKED_OUT \<and> assets w' ''a1'' = Some AVAILABLE
      \<and> assets w' ''a3'' = assets sampleWorld ''a3''
      \<and> SchedulerCancel ''job1'' \<in> set (calls w')
      \<and> mails w' = [SendEmail \<lparr>e_to = ''carl@shelf.nu'',
                       e_subject = ''Booking deleted (Shoot) - shelf.nu'',
                       e_text = DeletedBookingEmailContent args\<rparr>]"
proof -
  have "\<exists>w' b. deleteBooking sampleWorld ''b1'' () = Inr (w', b)
          \<and> custodianEmail b = Some ''carl@shelf.nu''"
    by (simp add: run_defs)
  then obtain w' b where run: "deleteBooking sampleWorld ''b1'' () = Inr (w', b)"
    and em: "custodianEmail b = Some ''carl@shelf.nu''"
    by blast
  have s: "bookings sampleWorld ''b1'' = Some sampleBooking" "b_status sampleBooking = ONGOING"
    "b_assets sampleBooking = [''a1'', ''a2'']" "b_name sampleBooking = ''Shoot''"
    "truthy (b_activeSchedulerReference sampleBooking) = Some ''job1''"
    "assets sampleWorld ''a1'' = Some CHECKED_OUT" "calls sampleWorld = []"
    "mails sampleWorld = []"
    by (simp_all add: sampleWorld_def sampleBooking_def truthy_def mails_def)
  from deleteBooking_effects [OF run] obtain row where
    r: "bookings sampleWorld ''b1'' = Some row"
    and b': "bookings w' = (bookings sampleWorld)(''b1'' := None)"
    and act: "b_status row = ONGOING \<or> b_status row = OVERDUE \<longrightarrow>
          (\<forall>a \<in> set (b_assets row). assets sampleWorld a \<noteq> None \<longrightarrow> assets w' a = Some AVAILABLE)
          \<and> (\<forall>a. a \<notin> set (b_assets row) \<longrightarrow> assets w' a = assets sampleWorld a)"
    and cs: "\<exists>cs. calls w' = calls sampleWorld @ cs
            \<and> (\<forall>r. truthy (b_activeSchedulerReference row) = Some r \<longrightarrow> SchedulerCancel r \<in> set cs)
            \<and> filter isSendAfter cs = []"
    and ml: "case custodianEmail b of
          None \<Rightarrow> mails w' = mails sampleWorld
        | Some email \<Rightarrow>
            (\<exists>args. mails w' = mails sampleWorld @
               [SendEmail \<lparr>e_to = email,
                  e_subject = ''Booking deleted ('' @ b_name row @ '') - shelf.nu'',
                  e_text = DeletedBookingEmailContent args\<rparr>])"
    by blast
  from r s(1) have row: "row = sampleBooking" by simp
  have p1: "bookings w' ''b1'' = None" by (simp add: b')
  from act have p2: "assets w' ''a1'' = Some AVAILABLE" "assets w' ''a3'' = assets sampleWorld ''a3''"
    by (simp_all add: row s)
  from cs have p3: "SchedulerCancel ''job1'' \<in> set (calls w')"
    by (auto simp: row s)
  from ml em have p4: "\<exists>args. mails w' = [SendEmail \<lparr>e_to = ''carl@shelf.nu'',
                       e_subject = ''Booking deleted (Shoot) - shelf.nu'',
                       e_text = DeletedBookingEmailContent args\<rparr>]"
    by (simp add: row s)
  from run p1 p2 p3 p4 s(6) show ?thesis by blast
qed

subsection \<open>Creating or updating\<close>

text \<open>
  Claim C8. Without an id the call creates a booking: a row under a new id, connected to
  the creator and the organization of the input, and every other row as before. With an id
  it updates the booking of that id: the update data connects neither creator nor
  organization, the row's creator and organization are as before, and so is every other
  row.
\<close>

theorem upsertBooking_create_or_update:
  fixes w :: "'a world"
  assumes ok: "upsertBooking env w booking hints = Inr (w', out)"
  shows "(truthy (i_id booking) = None \<longrightarrow>
           (\<exists>res new. out = Created res \<and> r_id res = newBookingId env
              \<and> bookings w (newBookingId env) = None
              \<and> bookings w' (newBookingId env) = Some new
              \<and> b_creatorId new =
                  (case truthy (i_creatorId booking) of
                     None \<Rightarrow> b_creatorId (blankBooking env) | Some c \<Rightarrow> Some c)
              \<and> b_organizationId new =
                  (case truthy (i_organizationId booking) of
                     None \<Rightarrow> b_organizationId (blankBooking env) | Some c \<Rightarrow> Some c)
              \<and> (\<forall>j. j \<noteq> newBookingId env \<longrightarrow> bookings w' j = bookings w j)))
       \<and> (\<forall>i. truthy (i_id booking) = Some i \<longrightarrow>
           (\<exists>res data old new. out = Updated res \<and> r_id res = i
              \<and> bookingData w booking = Inr data
              \<and> d_creator_connect data = None \<and> d_organization_connect data = None
              \<and> bookings w i = Some old \<and> bookings w' i = Some new
              \<and> new = (writeData data old)\<lparr>b_activeSchedulerReference := b_activeSchedulerReference new\<rparr>
              \<and> b_creatorId new = b_creatorId old
              \<and> b_organizationId new = b_organizationId old
              \<and> (\<forall>j. j \<noteq> i \<longrightarrow> bookings w' j = bookings w j)))"
proof (intro conjI impI allI)
  assume None: "truthy (i_id booking) = None"
  from upsertBooking_create_path [OF ok None] obtain data where
    data: "bookingData w booking = Inr data"
    and cr: "upsertBooking_create env w booking hints data = Inr (w', out)"
    by blast
  from upsertBooking_create_steps [OF cr] obtain data' res w1 where
    data': "data' = data\<lparr>d_creator_connect :=
                        (case truthy (i_creatorId booking) of
                           None \<Rightarrow> d_creator_connect data
                         | Some creatorId \<Rightarrow> Some creatorId),
                      d_organization_connect :=
                        (case truthy (i_organizationId booking) of
                           None \<Rightarrow> d_organization_connect data
                         | Some organizationId \<Rightarrow> Some organizationId)\<rparr>"
    and fresh: "bookings w (newBookingId env) = None"
    and res: "res = loadBooking w (newBookingId env) (writeData data' (blankBooking env))"
    and out: "out = Created res"
    and w1: "w1 = w\<lparr>bookings := (bookings w)(newBookingId env \<mapsto> writeData data' (blankBooking env))\<rparr>"
    and job: "checkoutReminderJob env w1 booking res hints = Inr w'"
    by blast
  have rid: "r_id res = newBookingId env" by (simp add: res)
  have row1: "bookings w1 (r_id res) = Some (writeData data' (blankBooking env))"
    by (simp add: w1 rid)
  define new where "new = (writeData data' (blankBooking env))\<lparr>b_activeSchedulerReference :=
            (if \<exists>f. b_from (r_booking res) = Some f \<and> i_status booking = Some RESERVED
             then newJobId env else b_activeSchedulerReference (writeData data' (blankBooking env)))\<rparr>"
  from checkoutReminderJob_bookings [OF job row1]
  have b': "bookings w' = (bookings w)(newBookingId env \<mapsto> new)"
    by (simp add: w1 rid new_def)
  from bookingData_Inr [OF data] have dc: "d_creator_connect data = None"
    "d_organization_connect data = None" by simp_all
  have c: "b_creatorId new =
                  (case truthy (i_creatorId booking) of
                     None \<Rightarrow> b_creatorId (blankBooking env) | Some c \<Rightarrow> Some c)"
    by (cases "truthy (i_creatorId booking)") (simp_all add: new_def data' dc)
  have o: "b_organizationId new =
                  (case truthy (i_organizationId booking) of
                     None \<Rightarrow> b_organizationId (blankBooking env) | Some c \<Rightarrow> Some c)"
    by (cases "truthy (i_organizationId booking)") (simp_all add: new_def data' dc)
  have "bookings w' (newBookingId env) = Some new"
    "\<forall>j. j \<noteq> newBookingId env \<longrightarrow> bookings w' j = bookings w j"
    by (simp_all add: b')
  with out rid fresh c o
  show "\<exists>res new. out = Created res \<and> r_id res = newBookingId env
              \<and> bookings w (newBookingId env) = None
              \<and> bookings w' (newBookingId env) = Some new
              \<and> b_creatorId new =
                  (case truthy (i_creatorId booking) of
                     None \<Rightarrow> b_creatorId (blankBooking env) | Some c \<Rightarrow> Some c)
              \<and> b_organizationId new =
                  (case truthy (i_organizationId booking) of
                     None \<Rightarrow> b_organizationId (blankBooking env) | Some c \<Rightarrow> Some c)
              \<and> (\<forall>j. j \<noteq> newBookingId env \<longrightarrow> bookings w' j = bookings w j)"
    by blast
next
  fix i assume i: "truthy (i_id booking) = Some i"
  from upsertBooking_update_summary [OF ok i] obtain data old res where
    data: "bookingData w booking = Inr data" and old: "bookings w i = Some old"
    and res: "res = loadBooking w i (writeData data old)" and out: "out = Updated res"
    and b': "bookings w' = (bookings w)(i \<mapsto> (writeData data old)\<lparr>b_activeSchedulerReference :=
            (if \<exists>f. b_from (writeData data old) = Some f \<and> i_status booking = Some RESERVED
             then newJobId env else b_activeSchedulerReference old)\<rparr>)"
    by blast
  define new where "new = (writeData data old)\<lparr>b_activeSchedulerReference :=
            (if \<exists>f. b_from (writeData data old) = Some f \<and> i_status booking = Some RESERVED
             then newJobId env else b_activeSchedulerReference old)\<rparr>"
  from bookingData_Inr [OF data] have dc: "d_creator_connect data = None"
    "d_organization_connect data = None" by simp_all
  have "r_id res = i" by (simp add: res)
  moreover have "bookings w' i = Some new" "\<forall>j. j \<noteq> i \<longrightarrow> bookings w' j = bookings w j"
    by (simp_all add: b' new_def)
  moreover have "new = (writeData data old)\<lparr>b_activeSchedulerReference := b_activeSchedulerReference new\<rparr>"
    by (simp add: new_def)
  moreover have "b_creatorId new = b_creatorId old" "b_organizationId new = b_organizationId old"
    by (simp_all add: new_def dc)
  ultimately
  show "\<exists>res data old new. out = Updated res \<and> r_id res = i
              \<and> bookingData w booking = Inr data
              \<and> d_creator_connect data = None \<and> d_organization_connect data = None
              \<and> bookings w i = Some old \<and> bookings w' i = Some new
              \<and> new = (writeData data old)\<lparr>b_activeSchedulerReference := b_activeSchedulerReference new\<rparr>
              \<and> b_creatorId new = b_creatorId old
              \<and> b_organizationId new = b_organizationId old
              \<and> (\<forall>j. j \<noteq> i \<longrightarrow> bookings w' j = bookings w j)"
    using out data dc old by blast
qed

theorem upsertBooking_create_or_update_witness:
  "(\<exists>w' out new. upsertBooking sampleEnv sampleWorld sampleInput () = Inr (w', out)
      \<and> i_creatorId sampleInput = Some ''u2'' \<and> i_organizationId sampleInput = Some ''o2''
      \<and> bookings w' ''b1'' = Some new
      \<and> b_creatorId new = Some ''u1'' \<and> b_organizationId new = Some ''o1'')
   \<and> (\<exists>w' out new. upsertBooking sampleEnv sampleWorld (sampleInput\<lparr>i_id := None\<rparr>) ()
          = Inr (w', out)
      \<and> bookings sampleWorld ''b2'' = None \<and> bookings w' ''b2'' = Some new
      \<and> b_creatorId new = Some ''u2'' \<and> b_organizationId new = Some ''o2''
      \<and> bookings w' ''b1'' = bookings sampleWorld ''b1'')"
proof
  have "\<exists>w' out. upsertBooking sampleEnv sampleWorld sampleInput () = Inr (w', out)"
    by (simp add: run_defs)
  then obtain w' out where
    run: "upsertBooking sampleEnv sampleWorld sampleInput () = Inr (w', out)" by blast
  have h: "truthy (i_id sampleInput) = Some ''b1''"
    "i_creatorId sampleInput = Some ''u2''" "i_organizationId sampleInput = Some ''o2''"
    "bookings sampleWorld ''b1'' = Some sampleBooking"
    "b_creatorId sampleBooking = Some ''u1''" "b_organizationId sampleBooking = Some ''o1''"
    by (simp_all add: sampleInput_def truthy_def sampleWorld_def sampleBooking_def)
  from upsertBooking_create_or_update [OF run] h
  have "\<exists>new. bookings w' ''b1'' = Some new
      \<and> b_creatorId new = Some ''u1'' \<and> b_organizationId new = Some ''o1''"
    by auto
  with run h show "\<exists>w' out new. upsertBooking sampleEnv sampleWorld sampleInput () = Inr (w', out)
      \<and> i_creatorId sampleInput = Some ''u2'' \<and> i_organizationId sampleInput = Some ''o2''
      \<and> bookings w' ''b1'' = Some new
      \<and> b_creatorId new = Some ''u1'' \<and> b_organizationId new = Some ''o1''"
    by blast
next
  let ?input = "sampleInput\<lparr>i_id := None\<rparr>"
  have "\<exists>w' out. upsertBooking sampleEnv sampleWorld ?input () = Inr (w', out)"
    by (simp add: run_defs)
  then obtain w' out where
    run: "upsertBooking sampleEnv sampleWorld ?input () = Inr (w', out)" by blast
  have h: "truthy (i_id ?input) = None"
    "truthy (i_creatorId ?input) = Some ''u2''" "truthy (i_organizationId ?input) = Some ''o2''"
    "newBookingId sampleEnv = ''b2''"
    by (simp_all add: sampleInput_def truthy_def sampleEnv_def)
  from upsertBooking_create_or_update [OF run] h
  have "\<exists>new. bookings sampleWorld ''b2'' = None \<and> bookings w' ''b2'' = Some new
      \<and> b_creatorId new = Some ''u2'' \<and> b_organizationId new = Some ''o2''
      \<and> bookings w' ''b1'' = bookings sampleWorld ''b1''"
    by auto
  with run show "\<exists>w' out new. upsertBooking sampleEnv sampleWorld ?input () = Inr (w', out)
      \<and> bookings sampleWorld ''b2'' = None \<and> bookings w' ''b2'' = Some new
      \<and> b_creatorId new = Some ''u2'' \<and> b_organizationId new = Some ''o2''
      \<and> bookings w' ''b1'' = bookings sampleWorld ''b1''"
    by blast
qed

end
